theory Spec2Isabelle
  imports Complex_Main "HOL-Library.AList"
begin

section \<open>Strings\<close>

text \<open>
  A string of the program is a \<^typ>\<open>string\<close>: the list of the bytes of its UTF-8 encoding (a lone
  surrogate, which UTF-8 proper does not encode, as its three bytes of generalised UTF-8).  An
  encoded character never starts inside another one, so a test on the characters of a string is
  a test on its bytes.
\<close>

text \<open>\<^verbatim>\<open>s.startsWith(p)\<close>\<close>

definition startsWith :: "string \<Rightarrow> string \<Rightarrow> bool" where
  "startsWith s p = (take (length p) s = p)"

text \<open>
  \<^verbatim>\<open>s.split(sep)\<close> for a separator of one character: the pieces between the separators, the
  empty ones included; the empty string gives one empty piece.
\<close>

fun split_on :: "char \<Rightarrow> string \<Rightarrow> string list" where
  "split_on sep [] = [[]]"
| "split_on sep (c # cs) =
     (if c = sep then [] # split_on sep cs
      else (case split_on sep cs of
              [] \<Rightarrow> [[c]]
            | p # ps \<Rightarrow> (c # p) # ps))"

text \<open>
  The white space of the language, which \<^verbatim>\<open>trim\<close> removes and the pattern \<^verbatim>\<open>\s\<close> matches: TAB,
  LF, VT, FF, CR, SPACE, U+00A0, U+1680, U+2000 to U+200A, U+2028, U+2029, U+202F, U+205F, U+3000
  and U+FEFF, each by its encoding.
\<close>

definition white_spaces :: "string list" where
  "white_spaces =
     [[CHR 0x09], [CHR 0x0A], [CHR 0x0B], [CHR 0x0C], [CHR 0x0D], [CHR 0x20],
      [CHR 0xC2, CHR 0xA0],
      [CHR 0xE1, CHR 0x9A, CHR 0x80],
      [CHR 0xE2, CHR 0x80, CHR 0x80], [CHR 0xE2, CHR 0x80, CHR 0x81],
      [CHR 0xE2, CHR 0x80, CHR 0x82], [CHR 0xE2, CHR 0x80, CHR 0x83],
      [CHR 0xE2, CHR 0x80, CHR 0x84], [CHR 0xE2, CHR 0x80, CHR 0x85],
      [CHR 0xE2, CHR 0x80, CHR 0x86], [CHR 0xE2, CHR 0x80, CHR 0x87],
      [CHR 0xE2, CHR 0x80, CHR 0x88], [CHR 0xE2, CHR 0x80, CHR 0x89],
      [CHR 0xE2, CHR 0x80, CHR 0x8A],
      [CHR 0xE2, CHR 0x80, CHR 0xA8], [CHR 0xE2, CHR 0x80, CHR 0xA9],
      [CHR 0xE2, CHR 0x80, CHR 0xAF],
      [CHR 0xE2, CHR 0x81, CHR 0x9F],
      [CHR 0xE3, CHR 0x80, CHR 0x80],
      [CHR 0xEF, CHR 0xBB, CHR 0xBF]]"

text \<open>
  The rest of a string after the one character of \<^term>\<open>ws\<close> that it starts with, if it starts with
  one.
\<close>

definition rest_after :: "string list \<Rightarrow> string \<Rightarrow> string option" where
  "rest_after ws s =
     (case find (\<lambda>w. w \<noteq> [] \<and> startsWith s w) ws of
        None \<Rightarrow> None
      | Some w \<Rightarrow> Some (drop (length w) s))"

text \<open>\<^verbatim>\<open>s.trimStart()\<close>, \<^verbatim>\<open>s.trimEnd()\<close> and \<^verbatim>\<open>s.trim()\<close>\<close>

function trimStart :: "string \<Rightarrow> string" where
  "trimStart s = (case rest_after white_spaces s of None \<Rightarrow> s | Some rest \<Rightarrow> trimStart rest)"
  by pat_completeness auto
termination
proof (relation "measure length", goal_cases)
  case 1
  show ?case by simp
next
  case (2 s rest)
  then obtain w where "w \<noteq> []" "startsWith s w" "rest = drop (length w) s"
    by (auto simp: rest_after_def find_Some_iff split: option.splits)
  moreover from this have "s \<noteq> []" by (auto simp: startsWith_def)
  ultimately show ?case by simp
qed

function trimEnd :: "string \<Rightarrow> string" where
  "trimEnd s =
     (case rest_after (map rev white_spaces) (rev s) of
        None \<Rightarrow> s
      | Some rest \<Rightarrow> trimEnd (rev rest))"
  by pat_completeness auto
termination
proof (relation "measure length", goal_cases)
  case 1
  show ?case by simp
next
  case (2 s rest)
  then obtain w where "w \<noteq> []" "startsWith (rev s) w" "rest = drop (length w) (rev s)"
    by (auto simp: rest_after_def find_Some_iff split: option.splits)
  moreover from this have "s \<noteq> []" by (auto simp: startsWith_def)
  ultimately show ?case by simp
qed

definition trim :: "string \<Rightarrow> string" where
  "trim s = trimEnd (trimStart s)"

text \<open>
  \<^verbatim>\<open>s.split(/\s+/)\<close>: the pieces between the maximal runs of white space.  A string that starts
  (ends) with white space has an empty first (last) piece, and the empty string gives one empty
  piece.
\<close>

function split_ws :: "string \<Rightarrow> string list" where
  "split_ws [] = [[]]"
| "split_ws (c # cs) =
     (case rest_after white_spaces (c # cs) of
        Some rest \<Rightarrow> [] # split_ws (trimStart rest)
      | None \<Rightarrow>
          (case split_ws cs of
             [] \<Rightarrow> [[c]]
           | p # ps \<Rightarrow> (c # p) # ps))"
  by pat_completeness auto
termination
proof -
  have shorter: "length r < length s" if "rest_after white_spaces s = Some r" for s r
  proof -
    from that obtain w where "w \<noteq> []" "startsWith s w" "r = drop (length w) s"
      by (auto simp: rest_after_def find_Some_iff split: option.splits)
    moreover from this have "s \<noteq> []" by (auto simp: startsWith_def)
    ultimately show ?thesis by simp
  qed
  have le: "length (trimStart s) \<le> length s" for s
  proof (induction s rule: trimStart.induct)
    case (1 s)
    show ?case
    proof (cases "rest_after white_spaces s")
      case None
      then show ?thesis by (subst trimStart.simps) simp
    next
      case (Some r)
      then have "trimStart s = trimStart r" by (subst trimStart.simps) simp
      moreover have "length (trimStart r) \<le> length r" using Some by (rule "1.IH")
      ultimately show ?thesis using shorter [OF Some] by simp
    qed
  qed
  have less: "length (trimStart r) < length s" if "rest_after white_spaces s = Some r" for s r
    using le [of r] shorter [OF that] by simp
  show ?thesis
    by (relation "measure length") (auto simp del: trimStart.simps dest!: less)
qed

declare trimStart.simps [simp del] trimEnd.simps [simp del]

text \<open>\<^verbatim>\<open>xs.join(sep)\<close>\<close>

fun join :: "string \<Rightarrow> string list \<Rightarrow> string" where
  "join sep [] = []"
| "join sep [x] = x"
| "join sep (x # y # ys) = x @ sep @ join sep (y # ys)"

text \<open>The decimal digits of a natural number, \<^verbatim>\<open>String(n)\<close>.\<close>

fun show_nat :: "nat \<Rightarrow> string" where
  "show_nat n =
     (if n < 10 then [char_of (48 + n)]
      else show_nat (n div 10) @ [char_of (48 + n mod 10)])"

declare show_nat.simps [simp del]

text \<open>The dash of the messages, U+2014, in UTF-8.\<close>

definition emdash :: string where
  "emdash = [CHR 0xE2, CHR 0x80, CHR 0x94]"

section \<open>Decoded documents\<close>

text \<open>
  The value that the YAML decoder gives for a document: null, a boolean, a number (finite, NaN or
  an infinity), a string, a timestamp, a sequence or a mapping with string keys.  \<^verbatim>\<open>undefined\<close>,
  the value of an empty document and of a key that a mapping does not have, is \<^const>\<open>None\<close> of
  \<^typ>\<open>'a option\<close>.
\<close>

datatype jsval =
    JNull
  | JBool bool
  | JNum rat
  | JNaN
  | JInfinity bool
  | JStr string
  | JDate int
  | JArr "jsval list"
  | JObj "(string \<times> jsval) list"

text \<open>An exception: the \<^verbatim>\<open>ZodError\<close> of a schema with its issues, or an \<^verbatim>\<open>Error\<close> with a message.\<close>

record ZodIssue =
  path :: "string list"
  message :: string

datatype error = ZodError "ZodIssue list" | Error string

section \<open>The schema library (zod 3)\<close>

text \<open>
  The schemas are values built with the combinators of zod; \<^verbatim>\<open>schema.parse(data)\<close> is the
  interpreter \<open>zparse\<close> below, which follows \<^verbatim>\<open>_parse\<close> of each combinator: every issue is added
  to the list of the run at the moment it is found, and the status of a result is \<^verbatim>\<open>aborted\<close>
  (no value), \<^verbatim>\<open>dirty\<close> or \<^verbatim>\<open>valid\<close>.  An issue is kept as its path and its message (an index
  of an array is a path element in decimal digits).
\<close>

datatype 'a parsed = INVALID | DIRTY 'a | OK 'a

datatype string_check =
    Min_check nat "string option"
  | Regex_check "string \<Rightarrow> bool" string
  | StartsWith_check string string

datatype number_check = Int_check | Nonnegative_check

datatype zschema =
    ZString "string_check list"
  | ZNumber "number_check list"
  | ZBoolean
  | ZLiteral string
  | ZEnum "string list" "string option"
  | ZObject "(string \<times> zschema) list"
  | ZArray zschema
  | ZOptional zschema
  | ZDefault zschema jsval
  | ZRefine zschema "jsval option \<Rightarrow> bool" string

text \<open>\<^verbatim>\<open>getParsedType(data)\<close>\<close>

fun parsedType :: "jsval option \<Rightarrow> string" where
  "parsedType None = ''undefined''"
| "parsedType (Some JNull) = ''null''"
| "parsedType (Some (JBool b)) = ''boolean''"
| "parsedType (Some (JNum r)) = ''number''"
| "parsedType (Some JNaN) = ''nan''"
| "parsedType (Some (JInfinity b)) = ''number''"
| "parsedType (Some (JStr s)) = ''string''"
| "parsedType (Some (JDate t)) = ''date''"
| "parsedType (Some (JArr xs)) = ''array''"
| "parsedType (Some (JObj fs)) = ''object''"

text \<open>
  The issue \<^verbatim>\<open>invalid_type\<close>; the first argument is the message of the error map of the
  schema, when it has one.
\<close>

definition invalid_type ::
  "string option \<Rightarrow> string list \<Rightarrow> string \<Rightarrow> jsval option \<Rightarrow> ZodIssue" where
  "invalid_type errorMap p expected d =
     \<lparr>path = p,
      message = (case errorMap of
                   Some m \<Rightarrow> m
                 | None \<Rightarrow> if d = None then ''Required''
                           else ''Expected '' @ expected @ '', received '' @ parsedType d)\<rparr>"

text \<open>A check of a string schema: the message of its issue when the string fails it.\<close>

fun check_string :: "string_check \<Rightarrow> string \<Rightarrow> string option" where
  "check_string (Min_check n msg) s =
     (if length s < n
      then Some (case msg of
                   Some m \<Rightarrow> m
                 | None \<Rightarrow> ''String must contain at least '' @ show_nat n @ '' character(s)'')
      else None)"
| "check_string (Regex_check matches msg) s = (if matches s then None else Some msg)"
| "check_string (StartsWith_check pre msg) s = (if startsWith s pre then None else Some msg)"

text \<open>A check of a number schema, on a number or an infinity.\<close>

fun check_number :: "number_check \<Rightarrow> jsval \<Rightarrow> string option" where
  "check_number Int_check (JNum r) =
     (if r = of_int \<lfloor>r\<rfloor> then None else Some ''Expected integer, received float'')"
| "check_number Int_check v = Some ''Expected integer, received float''"
| "check_number Nonnegative_check (JNum r) =
     (if r < 0 then Some ''Number must be greater than or equal to 0'' else None)"
| "check_number Nonnegative_check (JInfinity b) =
     (if b then None else Some ''Number must be greater than or equal to 0'')"
| "check_number Nonnegative_check v = None"

text \<open>The result of a schema with checks: one issue for each failed check, none stops the run.\<close>

definition checked ::
  "string list \<Rightarrow> string list \<Rightarrow> jsval option \<Rightarrow> ZodIssue list \<times> jsval option parsed" where
  "checked p msgs d =
     (map (\<lambda>m. \<lparr>path = p, message = m\<rparr>) msgs, if msgs = [] then OK d else DIRTY d)"

definition is_aborted :: "'a parsed \<Rightarrow> bool" where
  "is_aborted r = (case r of INVALID \<Rightarrow> True | DIRTY v \<Rightarrow> False | OK v \<Rightarrow> False)"

definition is_dirty :: "'a parsed \<Rightarrow> bool" where
  "is_dirty r = (case r of INVALID \<Rightarrow> False | DIRTY v \<Rightarrow> True | OK v \<Rightarrow> False)"

fun parsed_value :: "jsval option parsed \<Rightarrow> jsval option" where
  "parsed_value INVALID = None"
| "parsed_value (DIRTY v) = v"
| "parsed_value (OK v) = v"

text \<open>
  \<^verbatim>\<open>ParseStatus.mergeObjectSync\<close>: no value when a key is aborted, otherwise the object of the
  keys of the shape whose value is not \<^verbatim>\<open>undefined\<close> (keys outside the shape are stripped).
\<close>

definition mergeObjectSync :: "(string \<times> jsval option parsed) list \<Rightarrow> jsval option parsed" where
  "mergeObjectSync pairs =
     (if list_ex (\<lambda>kr. is_aborted (snd kr)) pairs then INVALID
      else
        let finalObject =
              JObj (concat (map (\<lambda>kr. case parsed_value (snd kr) of
                                         None \<Rightarrow> []
                                       | Some v \<Rightarrow> [(fst kr, v)]) pairs))
        in if list_ex (\<lambda>kr. is_dirty (snd kr)) pairs then DIRTY (Some finalObject)
           else OK (Some finalObject))"

text \<open>
  \<^verbatim>\<open>ParseStatus.mergeArray\<close>.  The element schemas of this program never give \<^verbatim>\<open>undefined\<close>
  for an element, so the array of the values keeps every element.
\<close>

definition mergeArray :: "jsval option parsed list \<Rightarrow> jsval option parsed" where
  "mergeArray results =
     (if list_ex is_aborted results then INVALID
      else
        let arrayValue = JArr (concat (map (\<lambda>r. case parsed_value r of
                                                  None \<Rightarrow> []
                                                | Some v \<Rightarrow> [v]) results))
        in if list_ex is_dirty results then DIRTY (Some arrayValue)
           else OK (Some arrayValue))"

text \<open>\<^verbatim>\<open>util.joinValues(values)\<close>\<close>

definition joinValues :: "string list \<Rightarrow> string" where
  "joinValues values = join '' | '' (map (\<lambda>v. [CHR 0x27] @ v @ [CHR 0x27]) values)"

text \<open>\<^verbatim>\<open>schema._parse\<close> at a path: the issues it adds, in order, and its result.\<close>

function zrun ::
  "zschema \<Rightarrow> string list \<Rightarrow> jsval option \<Rightarrow> ZodIssue list \<times> jsval option parsed" where
  "zrun (ZString checks) p d =
     (case d of
        Some (JStr s) \<Rightarrow> checked p (List.map_filter (\<lambda>c. check_string c s) checks) d
      | _ \<Rightarrow> ([invalid_type None p ''string'' d], INVALID))"
| "zrun (ZNumber checks) p d =
     (case d of
        Some (JNum r) \<Rightarrow> checked p (List.map_filter (\<lambda>c. check_number c (JNum r)) checks) d
      | Some (JInfinity b) \<Rightarrow>
          checked p (List.map_filter (\<lambda>c. check_number c (JInfinity b)) checks) d
      | _ \<Rightarrow> ([invalid_type None p ''number'' d], INVALID))"
| "zrun ZBoolean p d =
     (case d of
        Some (JBool b) \<Rightarrow> ([], OK d)
      | _ \<Rightarrow> ([invalid_type None p ''boolean'' d], INVALID))"
| "zrun (ZLiteral v) p d =
     (if d = Some (JStr v) then ([], OK d)
      else ([\<lparr>path = p,
              message = ''Invalid literal value, expected '' @ [CHR 0x22] @ v @ [CHR 0x22]\<rparr>],
            INVALID))"
| "zrun (ZEnum values errorMap) p d =
     (case d of
        Some (JStr s) \<Rightarrow>
          if s \<in> set values then ([], OK d)
          else ([\<lparr>path = p,
                  message = (case errorMap of
                               Some m \<Rightarrow> m
                             | None \<Rightarrow> ''Invalid enum value. Expected '' @ joinValues values @
                                       '', received '' @ [CHR 0x27] @ s @ [CHR 0x27])\<rparr>],
                INVALID)
      | _ \<Rightarrow> ([invalid_type errorMap p (joinValues values) d], INVALID))"
| "zrun (ZObject shape) p d =
     (case d of
        Some (JObj fs) \<Rightarrow>
          let pairs = map (\<lambda>ks. (fst ks, zrun (snd ks) (p @ [fst ks]) (map_of fs (fst ks)))) shape
          in (concat (map (\<lambda>kr. fst (snd kr)) pairs),
              mergeObjectSync (map (\<lambda>kr. (fst kr, snd (snd kr))) pairs))
      | _ \<Rightarrow> ([invalid_type None p ''object'' d], INVALID))"
| "zrun (ZArray element) p d =
     (case d of
        Some (JArr xs) \<Rightarrow>
          let results = map (\<lambda>ix. zrun element (p @ [show_nat (fst ix)]) (Some (snd ix)))
                            (List.enumerate 0 xs)
          in (concat (map fst results), mergeArray (map snd results))
      | _ \<Rightarrow> ([invalid_type None p ''array'' d], INVALID))"
| "zrun (ZOptional inner) p d = (if d = None then ([], OK None) else zrun inner p d)"
| "zrun (ZDefault inner defaultValue) p d =
     (if d = None then zrun inner p (Some defaultValue) else zrun inner p d)"
| "zrun (ZRefine inner refinement msg) p d =
     (case zrun inner p d of
        (issues, INVALID) \<Rightarrow> (issues, INVALID)
      | (issues, DIRTY v) \<Rightarrow>
          if refinement v then (issues, DIRTY v)
          else (issues @ [\<lparr>path = p, message = msg\<rparr>], DIRTY v)
      | (issues, OK v) \<Rightarrow>
          if refinement v then (issues, OK v)
          else (issues @ [\<lparr>path = p, message = msg\<rparr>], DIRTY v))"
  by pat_completeness auto
termination
proof (relation "measure (\<lambda>(s, p, d). size s)", goal_cases)
  case (2 shape p d x2 fs ks)
  then have "size (snd ks) < Suc (size_list (size_prod (\<lambda>x. 0) size) shape)"
    by (induction shape) auto
  then show ?case by simp
qed simp_all

text \<open>
  \<^verbatim>\<open>schema.parse(data)\<close>: the value of a valid result; otherwise it throws the \<^verbatim>\<open>ZodError\<close> of
  the issues of the run, and an \<^verbatim>\<open>Error\<close> when the run has no issue (\<^verbatim>\<open>handleResult\<close>).
\<close>

definition zparse :: "zschema \<Rightarrow> jsval option \<Rightarrow> error + jsval option" where
  "zparse schema d =
     (case zrun schema [] d of
        (issues, OK v) \<Rightarrow> Inr v
      | (issues, r) \<Rightarrow>
          if issues = [] then Inl (Error ''Validation failed but no issues detected.'')
          else Inl (ZodError issues))"

section \<open>The schemas (schemas/manifest.ts, schemas/status.ts, schemas/operator.ts)\<close>

text \<open>The character classes of the patterns: \<^verbatim>\<open>[a-zA-Z0-9]\<close> and \<^verbatim>\<open>\w\<close>.\<close>

definition is_alnum :: "char \<Rightarrow> bool" where
  "is_alnum c =
     (let n = (of_char c :: nat) in
      (97 \<le> n \<and> n \<le> 122) \<or> (65 \<le> n \<and> n \<le> 90) \<or> (48 \<le> n \<and> n \<le> 57))"

definition is_word :: "char \<Rightarrow> bool" where
  "is_word c = (is_alnum c \<or> c = CHR ''_'')"

text \<open>\<^verbatim>\<open>/^[\w-]+\/[\w.-]+$/\<close>: no class has the slash, so the first slash ends the first part.\<close>

definition org_repo_pattern :: "string \<Rightarrow> bool" where
  "org_repo_pattern s =
     (let org = takeWhile (\<lambda>c. c \<noteq> CHR ''/'') s;
          rest = dropWhile (\<lambda>c. c \<noteq> CHR ''/'') s
      in org \<noteq> [] \<and> list_all (\<lambda>c. is_word c \<or> c = CHR ''-'') org \<and>
         rest \<noteq> [] \<and> tl rest \<noteq> [] \<and>
         list_all (\<lambda>c. is_word c \<or> c = CHR ''.'' \<or> c = CHR ''-'') (tl rest))"

text \<open>\<^verbatim>\<open>/^[a-zA-Z0-9-]+$/\<close>\<close>

definition handle_pattern :: "string \<Rightarrow> bool" where
  "handle_pattern s = (s \<noteq> [] \<and> list_all (\<lambda>c. is_alnum c \<or> c = CHR ''-'') s)"

text \<open>\<^verbatim>\<open>/^SHA256:[A-Za-z0-9+/=]+$/\<close>\<close>

definition fingerprint_pattern :: "string \<Rightarrow> bool" where
  "fingerprint_pattern s =
     (startsWith s ''SHA256:'' \<and> drop 7 s \<noteq> [] \<and>
      list_all (\<lambda>c. is_alnum c \<or> c = CHR ''+'' \<or> c = CHR ''/'' \<or> c = CHR ''='') (drop 7 s))"

definition ACCEPTED_LICENSES :: "string list" where
  "ACCEPTED_LICENSES =
     [''MIT'', ''Apache-2.0'', ''BSD-2-Clause'', ''BSD-3-Clause'', ''CC-BY-4.0'', ''AGPL-3.0'']"

definition ManifestSchema :: zschema where
  "ManifestSchema = ZObject
     [(''schemaVersion'', ZLiteral ''1.0''),
      (''name'', ZString [Min_check 1 (Some ''Project name is required'')]),
      (''hub'', ZString [Regex_check org_repo_pattern ''Hub must be in org/repo format'']),
      (''project'', ZString [Min_check 1 (Some ''Project identifier is required'')]),
      (''maintainer'',
         ZString [Regex_check handle_pattern ''Maintainer must be a valid GitHub handle'']),
      (''license'',
         ZEnum ACCEPTED_LICENSES
           (Some (''License must be one of: '' @ join '', '' ACCEPTED_LICENSES))),
      (''identity'', ZObject
         [(''handle'', ZString [Min_check 1 (Some ''Identity handle is required'')]),
          (''publicKey'',
             ZString [StartsWith_check ''ssh-ed25519 '' ''Public key must be an Ed25519 SSH key'']),
          (''fingerprint'',
             ZOptional
               (ZString [Regex_check fingerprint_pattern ''Fingerprint must be SHA256 format'']))]),
      (''security'',
         ZDefault (ZOptional (ZObject
           [(''reflexes'',
               ZDefault (ZOptional (ZObject
                 [(''signing'', ZDefault (ZOptional ZBoolean) (JBool False)),
                  (''secretScanning'', ZDefault (ZOptional ZBoolean) (JBool False)),
                  (''sandboxEnforcer'', ZDefault (ZOptional ZBoolean) (JBool False)),
                  (''contentFilter'', ZDefault (ZOptional ZBoolean) (JBool False))]))
                 (JObj []))]))
           (JObj [])),
      (''status'',
         ZOptional (ZObject
           [(''test'', ZOptional (ZString [Min_check 1 None])),
            (''healthCheck'', ZOptional (ZString [Min_check 1 None]))]))]"

definition LIFECYCLE_PHASES :: "string list" where
  "LIFECYCLE_PHASES =
     [''specify'', ''build'', ''harden'', ''contrib-prep'', ''review'', ''shipped'', ''evolving'']"

text \<open>
  \<^verbatim>\<open>(val) => !isNaN(Date.parse(val))\<close>.  \<^verbatim>\<open>Date.parse\<close> is the date parser of the host, a
  parameter of the schemas that use it: the time in milliseconds, \<^const>\<open>None\<close> for \<^verbatim>\<open>NaN\<close>.
\<close>

definition valid_date :: "(string \<Rightarrow> int option) \<Rightarrow> jsval option \<Rightarrow> bool" where
  "valid_date Date_parse val =
     (case val of Some (JStr s) \<Rightarrow> Date_parse s \<noteq> None | _ \<Rightarrow> False)"

definition StatusSchema :: "(string \<Rightarrow> int option) \<Rightarrow> zschema" where
  "StatusSchema Date_parse = ZObject
     [(''schemaVersion'', ZLiteral ''1.0''),
      (''generatedAt'',
         ZRefine (ZString []) (valid_date Date_parse)
           ''generatedAt must be a valid ISO 8601 timestamp''),
      (''generatedBy'', ZString [Min_check 1 (Some ''generatedBy is required'')]),
      (''phase'',
         ZEnum LIFECYCLE_PHASES
           (Some (''Phase must be one of: '' @ join '', '' LIFECYCLE_PHASES))),
      (''tests'', ZObject
         [(''passing'', ZNumber [Int_check, Nonnegative_check]),
          (''failing'', ZNumber [Int_check, Nonnegative_check])]),
      (''git'', ZObject
         [(''branch'', ZString [Min_check 1 (Some ''Branch name is required'')]),
          (''lastCommit'',
             ZRefine (ZString []) (valid_date Date_parse) ''lastCommit must be a valid date''),
          (''dirty'', ZBoolean),
          (''behindRemote'', ZNumber [Int_check, Nonnegative_check])])]"

definition IdentityEntrySchema :: "(string \<Rightarrow> int option) \<Rightarrow> zschema" where
  "IdentityEntrySchema Date_parse = ZObject
     [(''provider'', ZString [Min_check 1 None]),
      (''id'', ZString [Min_check 1 None]),
      (''verified'', ZBoolean),
      (''verified_at'',
         ZOptional (ZRefine (ZString []) (valid_date Date_parse) ''Must be valid ISO 8601''))]"

definition HiveEntrySchema :: "(string \<Rightarrow> int option) \<Rightarrow> zschema" where
  "HiveEntrySchema Date_parse = ZObject
     [(''hive'', ZString [Regex_check org_repo_pattern ''Hive must be in org/repo format'']),
      (''role'', ZOptional (ZEnum [''contributor'', ''reviewer'', ''maintainer''] None)),
      (''trust_zone'', ZOptional (ZEnum [''untrusted'', ''trusted'', ''maintainer''] None)),
      (''identity_provider'', ZOptional (ZString [])),
      (''joined'',
         ZOptional (ZRefine (ZString []) (valid_date Date_parse) ''Must be valid ISO 8601'')),
      (''contributions'', ZOptional (ZNumber [Int_check, Nonnegative_check])),
      (''reviews'', ZOptional (ZNumber [Int_check, Nonnegative_check])),
      (''swarms'', ZOptional (ZNumber [Int_check, Nonnegative_check]))]"

definition OperatorTier1Shape :: "(string \<Rightarrow> int option) \<Rightarrow> (string \<times> zschema) list" where
  "OperatorTier1Shape Date_parse =
     [(''schemaVersion'', ZLiteral ''1.0''),
      (''handle'', ZString [Min_check 1 (Some ''Handle is required'')]),
      (''name'', ZOptional (ZString [])),
      (''signing'', ZObject
         [(''publicKey'', ZString [StartsWith_check ''ssh-ed25519 '' ''Must be an Ed25519 SSH key'']),
          (''fingerprint'',
             ZOptional (ZString [Regex_check fingerprint_pattern ''Must be SHA256 format'']))]),
      (''identities'', ZDefault (ZOptional (ZArray (IdentityEntrySchema Date_parse))) (JArr [])),
      (''skills'', ZDefault (ZOptional (ZArray (ZString []))) (JArr [])),
      (''availability'',
         ZDefault (ZOptional (ZEnum [''open'', ''busy'', ''offline''] None)) (JStr ''open''))]"

definition OperatorTier2Shape :: "(string \<Rightarrow> int option) \<Rightarrow> (string \<times> zschema) list" where
  "OperatorTier2Shape Date_parse =
     [(''hives'', ZDefault (ZOptional (ZArray (HiveEntrySchema Date_parse))) (JArr []))]"

text \<open>\<^verbatim>\<open>OperatorTier1Schema.merge(OperatorTier2Schema)\<close>: the two shapes have no key in common.\<close>

definition OperatorSchema :: "(string \<Rightarrow> int option) \<Rightarrow> zschema" where
  "OperatorSchema Date_parse =
     ZObject (OperatorTier1Shape Date_parse @ OperatorTier2Shape Date_parse)"

section \<open>The typed documents\<close>

text \<open>
  The types \<^verbatim>\<open>Manifest\<close>, \<^verbatim>\<open>SpokeStatus\<close> and \<^verbatim>\<open>Operator\<close> that the schemas infer, as records, with
  the fields that the commands read.  A field that may be absent is an option.  The functions
  \<open>as_Manifest\<close>, \<open>as_SpokeStatus\<close> and \<open>as_Operator\<close> read the value of a valid result at that
  type.
\<close>

record Identity =
  handle :: string
  publicKey :: string
  fingerprint :: "string option"

record Reflexes =
  signing :: bool
  secretScanning :: bool
  sandboxEnforcer :: bool
  contentFilter :: bool

record Manifest =
  name :: string
  hub :: string
  project :: string
  maintainer :: string
  license :: string
  identity :: Identity
  reflexes :: Reflexes

record Tests =
  passing :: int
  failing :: int

record Git =
  branch :: string
  lastCommit :: string
  dirty :: bool
  behindRemote :: int

record SpokeStatus =
  generatedAt :: string
  generatedBy :: string
  phase :: string
  tests :: Tests
  git :: Git

record Signing =
  publicKey :: string
  fingerprint :: "string option"

record Operator =
  handle :: string
  signing :: Signing
  skills :: "string list"
  hives :: "jsval list"

text \<open>The member \<^verbatim>\<open>v.k\<close> of a value that is an object.\<close>

definition member :: "jsval option \<Rightarrow> string \<Rightarrow> jsval option" where
  "member v k = (case v of Some (JObj fs) \<Rightarrow> map_of fs k | _ \<Rightarrow> None)"

definition as_string :: "jsval option \<Rightarrow> string" where
  "as_string v = (case v of Some (JStr s) \<Rightarrow> s | _ \<Rightarrow> [])"

definition as_string_option :: "jsval option \<Rightarrow> string option" where
  "as_string_option v = (case v of Some (JStr s) \<Rightarrow> Some s | _ \<Rightarrow> None)"

definition as_boolean :: "jsval option \<Rightarrow> bool" where
  "as_boolean v = (case v of Some (JBool b) \<Rightarrow> b | _ \<Rightarrow> False)"

definition as_integer :: "jsval option \<Rightarrow> int" where
  "as_integer v = (case v of Some (JNum r) \<Rightarrow> \<lfloor>r\<rfloor> | _ \<Rightarrow> 0)"

definition as_array :: "jsval option \<Rightarrow> jsval list" where
  "as_array v = (case v of Some (JArr xs) \<Rightarrow> xs | _ \<Rightarrow> [])"

definition as_Manifest :: "jsval option \<Rightarrow> Manifest" where
  "as_Manifest v =
     \<lparr>name = as_string (member v ''name''),
      hub = as_string (member v ''hub''),
      project = as_string (member v ''project''),
      maintainer = as_string (member v ''maintainer''),
      license = as_string (member v ''license''),
      identity =
        \<lparr>Identity.handle = as_string (member (member v ''identity'') ''handle''),
         Identity.publicKey = as_string (member (member v ''identity'') ''publicKey''),
         Identity.fingerprint =
           as_string_option (member (member v ''identity'') ''fingerprint'')\<rparr>,
      reflexes =
        (let r = member (member v ''security'') ''reflexes'' in
         \<lparr>Reflexes.signing = as_boolean (member r ''signing''),
          secretScanning = as_boolean (member r ''secretScanning''),
          sandboxEnforcer = as_boolean (member r ''sandboxEnforcer''),
          contentFilter = as_boolean (member r ''contentFilter'')\<rparr>)\<rparr>"

definition as_SpokeStatus :: "jsval option \<Rightarrow> SpokeStatus" where
  "as_SpokeStatus v =
     \<lparr>generatedAt = as_string (member v ''generatedAt''),
      generatedBy = as_string (member v ''generatedBy''),
      phase = as_string (member v ''phase''),
      tests =
        \<lparr>passing = as_integer (member (member v ''tests'') ''passing''),
         failing = as_integer (member (member v ''tests'') ''failing'')\<rparr>,
      git =
        \<lparr>branch = as_string (member (member v ''git'') ''branch''),
         lastCommit = as_string (member (member v ''git'') ''lastCommit''),
         dirty = as_boolean (member (member v ''git'') ''dirty''),
         behindRemote = as_integer (member (member v ''git'') ''behindRemote'')\<rparr>\<rparr>"

definition as_Operator :: "jsval option \<Rightarrow> Operator" where
  "as_Operator v =
     \<lparr>Operator.handle = as_string (member v ''handle''),
      signing =
        \<lparr>Signing.publicKey = as_string (member (member v ''signing'') ''publicKey''),
         Signing.fingerprint =
           as_string_option (member (member v ''signing'') ''fingerprint'')\<rparr>,
      skills = map (\<lambda>x. as_string (Some x)) (as_array (member v ''skills'')),
      hives = as_array (member v ''hives'')\<rparr>"

text \<open>\<^verbatim>\<open>ManifestSchema.parse(raw)\<close>, \<^verbatim>\<open>StatusSchema.parse(raw)\<close>, \<^verbatim>\<open>OperatorSchema.parse(raw)\<close>\<close>

definition ManifestSchema_parse :: "jsval option \<Rightarrow> error + Manifest" where
  "ManifestSchema_parse raw = map_sum (\<lambda>e. e) as_Manifest (zparse ManifestSchema raw)"

definition StatusSchema_parse :: "(string \<Rightarrow> int option) \<Rightarrow> jsval option \<Rightarrow> error + SpokeStatus" where
  "StatusSchema_parse Date_parse raw =
     map_sum (\<lambda>e. e) as_SpokeStatus (zparse (StatusSchema Date_parse) raw)"

definition OperatorSchema_parse :: "(string \<Rightarrow> int option) \<Rightarrow> jsval option \<Rightarrow> error + Operator" where
  "OperatorSchema_parse Date_parse raw =
     map_sum (\<lambda>e. e) as_Operator (zparse (OperatorSchema Date_parse) raw)"

section \<open>The host\<close>

text \<open>
  What the commands take from their environment: \<^verbatim>\<open>load\<close> of js-yaml (the decoded document, or
  the exception it throws), \<^verbatim>\<open>Date.parse\<close>, the clock \<^verbatim>\<open>new Date().getTime()\<close> at the moment the
  staleness of a project is computed, and \<^verbatim>\<open>fetchFileFromRepo(repo, path, branch)\<close>, which gives
  the content of a file of a repository or \<^verbatim>\<open>null\<close>.
\<close>

record host =
  load :: "string \<Rightarrow> error + jsval option"
  Date_parse :: "string \<Rightarrow> int option"
  now :: "string \<Rightarrow> int"
  fetchFileFromRepo :: "jsval \<Rightarrow> string \<Rightarrow> jsval \<Rightarrow> string option"

text \<open>A step that may throw, followed by the rest of the block.\<close>

definition bind_error :: "error + 'a \<Rightarrow> ('a \<Rightarrow> error + 'b) \<Rightarrow> error + 'b" where
  "bind_error r f = (case r of Inl e \<Rightarrow> Inl e | Inr v \<Rightarrow> f v)"

text \<open>The values that a condition takes for true.\<close>

fun truthy :: "jsval option \<Rightarrow> bool" where
  "truthy None = False"
| "truthy (Some JNull) = False"
| "truthy (Some (JBool b)) = b"
| "truthy (Some (JNum r)) = (r \<noteq> 0)"
| "truthy (Some JNaN) = False"
| "truthy (Some (JInfinity b)) = True"
| "truthy (Some (JStr s)) = (s \<noteq> [])"
| "truthy (Some (JDate t)) = True"
| "truthy (Some (JArr xs)) = True"
| "truthy (Some (JObj fs)) = True"

text \<open>\<^verbatim>\<open>!content\<close> for the content of a file that may be \<^verbatim>\<open>null\<close>.\<close>

definition no_content :: "string option \<Rightarrow> bool" where
  "no_content content = (content = None \<or> content = Some [])"

text \<open>
  The reading of \<^verbatim>\<open>PROJECT.yaml\<close> in the commands of the hub: \<^verbatim>\<open>projectYaml.source?.repo\<close>
  throws a \<^verbatim>\<open>TypeError\<close> when the document is \<^verbatim>\<open>undefined\<close> or \<^verbatim>\<open>null\<close>; the result is the
  pair of \<^verbatim>\<open>source.repo\<close> and \<^verbatim>\<open>source.branch ?? "main"\<close>, or nothing when there is no
  \<^verbatim>\<open>source.repo\<close>.
\<close>

definition source_repo :: "jsval option \<Rightarrow> error + (jsval \<times> jsval) option" where
  "source_repo projectYaml =
     (if projectYaml = None \<or> projectYaml = Some JNull
      then Inl (Error ''TypeError'')
      else
        let source = member projectYaml ''source'' in
        if \<not> truthy (member source ''repo'') then Inr None
        else
          (case member source ''repo'' of
             None \<Rightarrow> Inr None
           | Some r \<Rightarrow>
               Inr (Some (r,
                          (case member source ''branch'' of
                             None \<Rightarrow> JStr ''main''
                           | Some JNull \<Rightarrow> JStr ''main''
                           | Some b \<Rightarrow> b)))))"

section \<open>The validate command (commands/validate.ts)\<close>

text \<open>
  The functions add to the errors and the warnings of the run; the lines that they print on the
  console are left out.
\<close>

record ValidationResult =
  errors :: "string list"
  warnings :: "string list"

text \<open>\<^verbatim>\<open>s.includes(t)\<close>\<close>

fun str_includes :: "string \<Rightarrow> string \<Rightarrow> bool" where
  "str_includes [] t = (t = [])"
| "str_includes (c # cs) t = (startsWith (c # cs) t \<or> str_includes cs t)"

text \<open>The \<^verbatim>\<open>catch\<close> block of \<^verbatim>\<open>validateManifest\<close>: the errors it pushes for an exception.\<close>

definition manifest_errors :: "error \<Rightarrow> string list" where
  "manifest_errors err =
     (case err of
        ZodError issues \<Rightarrow>
          map (\<lambda>issue. ''manifest.yaml: '' @ join ''.'' (path issue) @ '' '' @ emdash @ '' '' @
                        message issue) issues
      | Error msg \<Rightarrow> [''manifest.yaml: '' @ msg])"

text \<open>
  \<^verbatim>\<open>validateManifest(collabDir, results)\<close>; the second argument is the content of
  \<^verbatim>\<open>manifest.yaml\<close>, \<^const>\<open>None\<close> when the file does not exist.
\<close>

definition validateManifest ::
  "host \<Rightarrow> string option \<Rightarrow> ValidationResult \<Rightarrow> Manifest option \<times> ValidationResult" where
  "validateManifest h file results =
     (case file of
        None \<Rightarrow> (None, results\<lparr>errors := errors results @ [''manifest.yaml not found'']\<rparr>)
      | Some content \<Rightarrow>
          (case bind_error (load h content) ManifestSchema_parse of
             Inr manifest \<Rightarrow>
               if str_includes (Identity.publicKey (identity manifest)) ''<your-public-key-here>''
               then (Some manifest,
                     results\<lparr>warnings := warnings results @
                                [''manifest.yaml: publicKey is still a placeholder'']\<rparr>)
               else (Some manifest, results)
           | Inl err \<Rightarrow> (None, results\<lparr>errors := errors results @ manifest_errors err\<rparr>)))"

text \<open>\<^verbatim>\<open>validateCrossFile(manifest, operator, results)\<close>\<close>

definition validateCrossFile ::
  "Manifest option \<Rightarrow> Operator option \<Rightarrow> ValidationResult \<Rightarrow> ValidationResult" where
  "validateCrossFile manifest operator results =
     (case manifest of
        None \<Rightarrow> results
      | Some m \<Rightarrow>
          (case operator of
             None \<Rightarrow> results
           | Some operator \<Rightarrow>
               let results1 =
                     (if Identity.handle (identity m) = Operator.handle operator then results
                      else results\<lparr>errors := errors results @
                             [''Handle mismatch: manifest '' @ [CHR 0x22] @
                              Identity.handle (identity m) @ [CHR 0x22] @ '' vs operator '' @
                              [CHR 0x22] @ Operator.handle operator @ [CHR 0x22]]\<rparr>)
               in if Identity.publicKey (identity m) = Signing.publicKey (signing operator)
                  then results1
                  else results1\<lparr>errors := errors results1 @
                         [''Public key mismatch between manifest.yaml and operator.yaml'']\<rparr>))"

section \<open>The allowed-signers registry (commands/verify.ts)\<close>

text \<open>
  An entry of the registry, \<^verbatim>\<open>{ email, keyType, publicKey }\<close>.  The registry is a \<^verbatim>\<open>Map\<close> from
  the email to the entry: a list of pairs in insertion order with one pair for a key.
  \<^verbatim>\<open>signers.set(k, v)\<close> replaces the value of a key that is present, where it stands, and appends
  a new key at the end, which is \<^const>\<open>AList.update\<close>.
\<close>

record AllowedSigner =
  email :: string
  keyType :: string
  publicKey :: string

type_synonym signers = "(string \<times> AllowedSigner) list"

text \<open>The body of the loop of \<^verbatim>\<open>parseAllowedSigners\<close> for one line of the file.\<close>

definition signer_line :: "signers \<Rightarrow> string \<Rightarrow> signers" where
  "signer_line signers line =
     (let trimmed = trim line in
      if trimmed = [] \<or> startsWith trimmed ''#'' then signers
      else
        let parts = split_ws trimmed in
        if length parts \<ge> 3 then
          let email = parts ! 0; keyType = parts ! 1; publicKey = parts ! 2;
              fullKey = keyType @ '' '' @ publicKey
          in AList.update email
               \<lparr>email = email, keyType = keyType, AllowedSigner.publicKey = fullKey\<rparr> signers
        else signers)"

text \<open>
  \<^verbatim>\<open>parseAllowedSigners(filePath)\<close>; the argument is the content of the file, \<^const>\<open>None\<close> when
  the file does not exist.
\<close>

definition parseAllowedSigners :: "string option \<Rightarrow> signers" where
  "parseAllowedSigners file =
     (case file of
        None \<Rightarrow> []
      | Some content \<Rightarrow> foldl signer_line [] (split_on CHR 0x0A content))"

section \<open>Matching a spoke key against the registry (commands/verify.ts)\<close>

text \<open>
  The comparison of the first two pieces of both keys, the condition of the \<^verbatim>\<open>if\<close> in the loop
  over the registry.
\<close>

definition key_parts_match :: "string \<Rightarrow> string \<Rightarrow> bool" where
  "key_parts_match spokeKey signerKey =
     (let spokeKeyParts = split_ws spokeKey; signerKeyParts = split_ws signerKey in
      length spokeKeyParts \<ge> 2 \<and> length signerKeyParts \<ge> 2 \<and>
      spokeKeyParts ! 0 = signerKeyParts ! 0 \<and> spokeKeyParts ! 1 = signerKeyParts ! 1)"

text \<open>
  The loop \<^verbatim>\<open>for (const [_email, signer] of allowedSigners)\<close> of the verify command that
  fetches the manifests from the spoke repositories; the result is the pair
  \<^verbatim>\<open>(inAllowedSigners, keyMatch)\<close>, and \<^verbatim>\<open>break\<close> is the return without a recursive call.
\<close>

fun match_signers :: "string \<Rightarrow> signers \<Rightarrow> bool \<times> bool" where
  "match_signers spokeKey [] = (False, False)"
| "match_signers spokeKey ((key, signer) # rest) =
     (if key_parts_match spokeKey (AllowedSigner.publicKey signer) then (True, True)
      else match_signers spokeKey rest)"

text \<open>
  The same loop in the verify command that reads the manifests from the local
  \<^verbatim>\<open>projects/\<close> directory: it tries \<^verbatim>\<open>spokeKey.startsWith(signer.publicKey)\<close> first.
\<close>

fun match_signers_local :: "string \<Rightarrow> signers \<Rightarrow> bool \<times> bool" where
  "match_signers_local spokeKey [] = (False, False)"
| "match_signers_local spokeKey ((key, signer) # rest) =
     (if startsWith spokeKey (AllowedSigner.publicKey signer) then (True, True)
      else if key_parts_match spokeKey (AllowedSigner.publicKey signer) then (True, True)
      else match_signers_local spokeKey rest)"

text \<open>
  The body of the loop over the projects of the verify command for a manifest that the schema
  accepts: the key and the fingerprint of the manifest, the search in the registry and the
  issues.  The first function is the command that fetches the manifests from the spoke
  repositories, the second the one that reads them under \<^verbatim>\<open>projects/\<close>.
\<close>

record VerifyResult =
  project :: string
  handle :: string
  fingerprint :: "string option"
  inAllowedSigners :: bool
  keyMatch :: bool
  issues :: "string list"

record RepoVerifyResult = VerifyResult +
  repo :: jsval

definition verify_manifest :: "signers \<Rightarrow> string \<Rightarrow> Manifest \<Rightarrow> VerifyResult" where
  "verify_manifest allowedSigners proj manifest =
     (let spokeKey = Identity.publicKey (identity manifest);
          spokeFingerprint = Identity.fingerprint (identity manifest);
          found = match_signers spokeKey allowedSigners;
          issues1 = (if \<not> fst found
                     then [''Public key NOT in allowed-signers '' @ emdash @
                           '' operator not registered on hub'']
                     else []);
          issues2 = (if spokeFingerprint = None \<or> spokeFingerprint = Some []
                     then issues1 @ [''No fingerprint in manifest '' @ emdash @
                                     '' cannot verify key binding'']
                     else issues1)
      in \<lparr>VerifyResult.project = proj,
          VerifyResult.handle = Identity.handle (identity manifest),
          VerifyResult.fingerprint = spokeFingerprint,
          inAllowedSigners = fst found,
          keyMatch = snd found,
          issues = issues2\<rparr>)"


text \<open>The result that the \<^verbatim>\<open>catch\<close> block pushes for a manifest that does not load or parse.\<close>

definition invalid_manifest :: "string \<Rightarrow> VerifyResult" where
  "invalid_manifest proj =
     \<lparr>VerifyResult.project = proj,
      VerifyResult.handle = ''unknown'',
      VerifyResult.fingerprint = None,
      inAllowedSigners = False,
      keyMatch = False,
      issues = [''Invalid manifest.yaml'']\<rparr>"



text \<open>
  One round of the loop of the command of the hub: a project is its directory name and the
  content of \<^verbatim>\<open>PROJECT.yaml\<close>, \<^const>\<open>None\<close> when the file does not exist.  The reading of
  \<^verbatim>\<open>PROJECT.yaml\<close> is outside the \<^verbatim>\<open>try\<close> block, so its exception ends the run.
\<close>

definition verify_project ::
  "host \<Rightarrow> signers \<Rightarrow> RepoVerifyResult list \<Rightarrow> string \<times> string option \<Rightarrow>
   error + RepoVerifyResult list" where
  "verify_project h allowedSigners results p =
     (case snd p of
        None \<Rightarrow> Inr results
      | Some projectYamlContent \<Rightarrow>
          bind_error (load h projectYamlContent) (\<lambda>projectYaml.
          bind_error (source_repo projectYaml) (\<lambda>source.
            case source of
              None \<Rightarrow> Inr results
            | Some (r, b) \<Rightarrow>
                let manifestContent = fetchFileFromRepo h r ''.collab/manifest.yaml'' b in
                if no_content manifestContent then Inr results
                else
                  (case bind_error (load h (the manifestContent)) ManifestSchema_parse of
                     Inl err \<Rightarrow>
                       Inr (results @ [VerifyResult.extend (invalid_manifest (fst p))
                                         (RepoVerifyResult.fields r)])
                   | Inr manifest \<Rightarrow>
                       Inr (results @ [VerifyResult.extend
                                         (verify_manifest allowedSigners (fst p) manifest)
                                         (RepoVerifyResult.fields r)])))))"

fun verify_projects ::
  "host \<Rightarrow> signers \<Rightarrow> RepoVerifyResult list \<Rightarrow> (string \<times> string option) list \<Rightarrow>
   error + RepoVerifyResult list" where
  "verify_projects h allowedSigners results [] = Inr results"
| "verify_projects h allowedSigners results (p # ps) =
     (case verify_project h allowedSigners results p of
        Inl err \<Rightarrow> Inl err
      | Inr results' \<Rightarrow> verify_projects h allowedSigners results' ps)"



section \<open>The pull command (commands/pull.ts)\<close>

text \<open>
  \<^verbatim>\<open>isStale(generatedAt, thresholdDays)\<close>; \<^verbatim>\<open>new Date(generatedAt).getTime()\<close> is
  \<^verbatim>\<open>Date.parse(generatedAt)\<close>, and a comparison with \<^verbatim>\<open>NaN\<close> is false.  The second argument is
  the clock.
\<close>

definition isStale :: "(string \<Rightarrow> int option) \<Rightarrow> int \<Rightarrow> string \<Rightarrow> int \<Rightarrow> bool" where
  "isStale parse_date clock generatedAtText thresholdDays =
     (case parse_date generatedAtText of
        None \<Rightarrow> False
      | Some generated \<Rightarrow>
          let diffMs = clock - generated in
          diffMs > thresholdDays * 24 * 60 * 60 * 1000)"

record SpokeEntry =
  project :: string
  maintainer :: string
  phase :: string
  tests :: Tests
  dirty :: bool
  behindRemote :: int
  lastCommit :: string
  generatedAt :: string
  license :: string
  reflexes :: Reflexes
  stale :: bool

record RepoSpokeEntry = SpokeEntry +
  repo :: jsval

text \<open>\<^verbatim>\<open>const stale = status ? isStale(status.generatedAt) : true\<close>\<close>

definition stale_flag :: "host \<Rightarrow> string \<Rightarrow> SpokeStatus option \<Rightarrow> bool" where
  "stale_flag h proj st =
     (case st of
        None \<Rightarrow> True
      | Some s \<Rightarrow> isStale (Date_parse h) (now h proj) (SpokeStatus.generatedAt s) 7)"

text \<open>The entry of a spoke, \<^verbatim>\<open>const entry: SpokeEntry = { ... }\<close>.\<close>

definition spoke_entry :: "Manifest \<Rightarrow> SpokeStatus option \<Rightarrow> bool \<Rightarrow> SpokeEntry" where
  "spoke_entry manifest st is_stale =
     \<lparr>SpokeEntry.project = Manifest.project manifest,
      SpokeEntry.maintainer = Manifest.maintainer manifest,
      SpokeEntry.phase = (case st of None \<Rightarrow> ''unknown'' | Some s \<Rightarrow> SpokeStatus.phase s),
      SpokeEntry.tests =
        (case st of None \<Rightarrow> \<lparr>passing = 0, failing = 0\<rparr> | Some s \<Rightarrow> SpokeStatus.tests s),
      SpokeEntry.dirty = (case st of None \<Rightarrow> False | Some s \<Rightarrow> Git.dirty (git s)),
      SpokeEntry.behindRemote = (case st of None \<Rightarrow> 0 | Some s \<Rightarrow> Git.behindRemote (git s)),
      SpokeEntry.lastCommit =
        (case st of None \<Rightarrow> ''unknown'' | Some s \<Rightarrow> Git.lastCommit (git s)),
      SpokeEntry.generatedAt =
        (case st of None \<Rightarrow> ''never'' | Some s \<Rightarrow> SpokeStatus.generatedAt s),
      SpokeEntry.license = Manifest.license manifest,
      SpokeEntry.reflexes = Manifest.reflexes manifest,
      stale = is_stale\<rparr>"

text \<open>
  The \<^verbatim>\<open>try\<close> block of a round: the manifest is loaded and parsed, then the status when there
  is one, and the entry is built.  Any exception of the block leaves it; the result is the
  entry and whether there is a status.
\<close>

definition read_spoke ::
  "host \<Rightarrow> string \<Rightarrow> string \<Rightarrow> string option \<Rightarrow> error + SpokeEntry \<times> bool" where
  "read_spoke h proj manifestContent statusContent =
     bind_error (load h manifestContent) (\<lambda>rawManifest.
     bind_error (ManifestSchema_parse rawManifest) (\<lambda>manifest.
     bind_error
       (case statusContent of
          None \<Rightarrow> Inr None
        | Some content \<Rightarrow>
            bind_error (load h content) (\<lambda>rawStatus.
            bind_error (StatusSchema_parse (Date_parse h) rawStatus) (\<lambda>s. Inr (Some s))))
       (\<lambda>st. Inr (spoke_entry manifest st (stale_flag h proj st), st \<noteq> None))))"










section \<open>The lines of a trust-anchor text\<close>

text \<open>
  The description of the registry that the properties use.  The pieces of a line that makes
  an entry: the line, trimmed, is not empty, does not start with \<^verbatim>\<open>#\<close> and has three pieces or
  more.
\<close>

definition line_parts :: "string \<Rightarrow> string list option" where
  "line_parts line =
     (let trimmed = trim line in
      if trimmed \<noteq> [] \<and> \<not> startsWith trimmed ''#'' \<and> length (split_ws trimmed) \<ge> 3
      then Some (split_ws trimmed) else None)"

definition entry_lines :: "string \<Rightarrow> string list list" where
  "entry_lines content = List.map_filter line_parts (split_on CHR 0x0A content)"

text \<open>The entry of such a line: the key is made of the second and the third piece.\<close>

definition line_entry :: "string list \<Rightarrow> string \<times> AllowedSigner" where
  "line_entry parts =
     (parts ! 0, \<lparr>email = parts ! 0, keyType = parts ! 1,
                  AllowedSigner.publicKey = parts ! 1 @ '' '' @ parts ! 2\<rparr>)"

text \<open>
  The entry with the key that the specification describes, the key type and all the pieces
  from the third on, joined again.
\<close>

definition rejoined_entry :: "string list \<Rightarrow> string \<times> AllowedSigner" where
  "rejoined_entry parts =
     (parts ! 0, \<lparr>email = parts ! 0, keyType = parts ! 1,
                  AllowedSigner.publicKey = parts ! 1 @ '' '' @ join '' '' (drop 2 parts)\<rparr>)"

definition set_entry :: "signers \<Rightarrow> string \<times> AllowedSigner \<Rightarrow> signers" where
  "set_entry m kv = AList.update (fst kv) (snd kv) m"

section \<open>Notions for the properties of the schemas\<close>

text \<open>A result is valid: its status is neither \<^verbatim>\<open>aborted\<close> nor \<^verbatim>\<open>dirty\<close>.\<close>

definition is_ok :: "'a parsed \<Rightarrow> bool" where
  "is_ok r = (case r of INVALID \<Rightarrow> False | DIRTY v \<Rightarrow> False | OK v \<Rightarrow> True)"

text \<open>A parse throws a \<^verbatim>\<open>ZodError\<close> that has an issue with the given path.\<close>

definition rejected_at :: "error + 'a \<Rightarrow> string list \<Rightarrow> bool" where
  "rejected_at r p =
     (case r of
        Inl (ZodError iss) \<Rightarrow> list_ex (\<lambda>i. path i = p) iss
      | _ \<Rightarrow> False)"

section \<open>Notions for the properties of the verify command\<close>





section \<open>Notions for the properties of the pull command\<close>













section \<open>Examples\<close>

definition signers_example :: string where
  "signers_example =
     ''# hub signers'' @ [CHR 0x0A] @
     ''alice@example.com ssh-ed25519 AAAA123 alice laptop'' @ [CHR 0x0A] @
     [CHR 0x0A] @
     ''bob@example.com ssh-ed25519'' @ [CHR 0x0A] @
     ''carol@example.com ssh-ed25519 CCCC789''"

definition signers_twice :: string where
  "signers_twice =
     ''alice@example.com ssh-ed25519 AAAA123'' @ [CHR 0x0A] @
     ''bob@example.com ssh-ed25519 BBBB456'' @ [CHR 0x0A] @
     ''alice@example.com ssh-ed25519 ZZZZ999''"

text \<open>
  A registry file that starts with a byte order mark (U+FEFF): a line with a no-break space
  (U+00A0) before the comment of the key and CR at its end, a comment after an ideographic
  space (U+3000), and a line with a TAB and an em space (U+2003) between its pieces.  The same
  mark before two lines for one email, and a key with a no-break space before its comment.
\<close>

definition signers_marked :: string where
  "signers_marked =
     [CHR 0xEF, CHR 0xBB, CHR 0xBF] @ ''alice@example.com ssh-ed25519 AAAA123'' @
       [CHR 0xC2, CHR 0xA0] @ ''laptop'' @ [CHR 0x0D, CHR 0x0A] @
     [CHR 0xE3, CHR 0x80, CHR 0x80] @ ''# carol@example.com ssh-ed25519 CCCC789'' @ [CHR 0x0A] @
     ''bob@example.com'' @ [CHR 0x09] @ ''ssh-ed25519'' @ [CHR 0xE2, CHR 0x80, CHR 0x83] @
       ''BBBB456''"

definition signers_marked_twice :: string where
  "signers_marked_twice =
     [CHR 0xEF, CHR 0xBB, CHR 0xBF] @ ''alice@example.com ssh-ed25519 AAAA123'' @ [CHR 0x0A] @
     ''alice@example.com ssh-ed25519 ZZZZ999''"

definition marked_comment :: string where
  "marked_comment = [CHR 0xEF, CHR 0xBB, CHR 0xBF] @ ''# hub signers''"

definition laptop_key :: string where
  "laptop_key = ''ssh-ed25519 AAAA123'' @ [CHR 0xC2, CHR 0xA0] @ ''laptop''"

definition minimal_manifest :: "(string \<times> jsval) list" where
  "minimal_manifest =
     [(''schemaVersion'', JStr ''1.0''),
      (''name'', JStr ''test-project''),
      (''hub'', JStr ''org/repo''),
      (''project'', JStr ''test''),
      (''maintainer'', JStr ''testuser''),
      (''license'', JStr ''MIT''),
      (''identity'', JObj [(''handle'', JStr ''testuser''),
                           (''publicKey'', JStr ''ssh-ed25519 AAAA_test_key'')])]"

definition bad_manifest :: "(string \<times> jsval) list" where
  "bad_manifest =
     [(''schemaVersion'', JStr ''1.0''),
      (''name'', JStr ''test-project''),
      (''hub'', JStr ''not-a-valid-hub''),
      (''project'', JStr ''test''),
      (''maintainer'', JStr ''testuser''),
      (''license'', JStr ''GPL-3.0''),
      (''identity'', JObj [(''handle'', JStr ''testuser''),
                           (''publicKey'', JStr ''ssh-rsa AAAA...'')])]"

definition valid_manifest :: "(string \<times> jsval) list" where
  "valid_manifest =
     [(''schemaVersion'', JStr ''1.0''),
      (''name'', JStr ''the-hive''),
      (''hub'', JStr ''mellanon/pai-collab''),
      (''project'', JStr ''the-hive''),
      (''maintainer'', JStr ''mellanon''),
      (''license'', JStr ''CC-BY-4.0''),
      (''identity'',
         JObj [(''handle'', JStr ''mellanon''),
               (''publicKey'', JStr ''ssh-ed25519 AAAAC3NzaC1lZDI1NTE5AAAAIO6xYoY3NSCNkCSiS4GU+EhZPQFh098vsiUh6KggOg1a''),
               (''fingerprint'', JStr ''SHA256:+sgg04W+IN7//6af+CaRDn5PIG6p3adMkbMHa5zWTGk'')]),
      (''security'',
         JObj [(''reflexes'',
                JObj [(''signing'', JBool True), (''secretScanning'', JBool True),
                      (''sandboxEnforcer'', JBool True), (''contentFilter'', JBool True)])]),
      (''status'', JObj [(''test'', JStr ''bun test''), (''healthCheck'', JStr ''bun run validate'')])]"

definition valid_status :: "(string \<times> jsval) list" where
  "valid_status =
     [(''schemaVersion'', JStr ''1.0''),
      (''generatedAt'', JStr ''2026-02-07T00:00:00Z''),
      (''generatedBy'', JStr ''hive-spoke 0.1.0''),
      (''phase'', JStr ''build''),
      (''tests'', JObj [(''passing'', JNum 10), (''failing'', JNum 0)]),
      (''git'', JObj [(''branch'', JStr ''main''),
                      (''lastCommit'', JStr ''2026-02-07T00:00:00Z''),
                      (''dirty'', JBool False),
                      (''behindRemote'', JNum 0)])]"

definition example_host :: "int \<Rightarrow> host" where
  "example_host clock =
     \<lparr>load = (\<lambda>content.
         if content = ''minimal manifest'' then Inr (Some (JObj minimal_manifest))
         else if content = ''valid manifest'' then Inr (Some (JObj valid_manifest))
         else if content = ''bad manifest'' then Inr (Some (JObj bad_manifest))
         else if content = ''valid status'' then Inr (Some (JObj valid_status))
         else if content = ''status without phase''
           then Inr (Some (JObj (AList.delete ''phase'' valid_status)))
         else Inl (Error ''bad indentation of a mapping entry'')),
      Date_parse = (\<lambda>text. if text = ''2026-02-07T00:00:00Z'' then Some 1770422400000 else None),
      now = (\<lambda>proj. clock),
      fetchFileFromRepo = (\<lambda>r file b. None)\<rparr>"

definition unknown_entry :: SpokeEntry where
  "unknown_entry =
     \<lparr>SpokeEntry.project = ''test'', SpokeEntry.maintainer = ''testuser'',
      SpokeEntry.phase = ''unknown'', SpokeEntry.tests = \<lparr>passing = 0, failing = 0\<rparr>,
      SpokeEntry.dirty = False, SpokeEntry.behindRemote = 0,
      SpokeEntry.lastCommit = ''unknown'', SpokeEntry.generatedAt = ''never'',
      SpokeEntry.license = ''MIT'',
      SpokeEntry.reflexes =
        \<lparr>Reflexes.signing = False, secretScanning = False,
         sandboxEnforcer = False, contentFilter = False\<rparr>,
      stale = True\<rparr>"

definition build_entry :: "bool \<Rightarrow> SpokeEntry" where
  "build_entry is_stale =
     \<lparr>SpokeEntry.project = ''test'', SpokeEntry.maintainer = ''testuser'',
      SpokeEntry.phase = ''build'', SpokeEntry.tests = \<lparr>passing = 10, failing = 0\<rparr>,
      SpokeEntry.dirty = False, SpokeEntry.behindRemote = 0,
      SpokeEntry.lastCommit = ''2026-02-07T00:00:00Z'',
      SpokeEntry.generatedAt = ''2026-02-07T00:00:00Z'',
      SpokeEntry.license = ''MIT'',
      SpokeEntry.reflexes =
        \<lparr>Reflexes.signing = False, secretScanning = False,
         sandboxEnforcer = False, contentFilter = False\<rparr>,
      stale = is_stale\<rparr>"

definition build_status :: SpokeStatus where
  "build_status =
     \<lparr>SpokeStatus.generatedAt = ''2026-02-07T00:00:00Z'',
      generatedBy = ''hive-spoke 0.1.0'', SpokeStatus.phase = ''build'',
      SpokeStatus.tests = \<lparr>passing = 10, failing = 0\<rparr>,
      git = \<lparr>branch = ''main'', Git.lastCommit = ''2026-02-07T00:00:00Z'',
             Git.dirty = False, Git.behindRemote = 0\<rparr>\<rparr>"

definition alice_manifest :: Manifest where
  "alice_manifest =
     \<lparr>name = ''the-hive'', hub = ''mellanon/pai-collab'', Manifest.project = ''the-hive'',
      Manifest.maintainer = ''alice'', Manifest.license = ''MIT'',
      identity = \<lparr>Identity.handle = ''alice'', Identity.publicKey = ''ssh-ed25519 AAAA123'',
                  Identity.fingerprint = None\<rparr>,
      Manifest.reflexes = \<lparr>Reflexes.signing = False, secretScanning = False,
                           sandboxEnforcer = False, contentFilter = False\<rparr>\<rparr>"

definition bob_operator :: Operator where
  "bob_operator =
     \<lparr>Operator.handle = ''bob'',
      signing = \<lparr>Signing.publicKey = ''ssh-ed25519 AAAA123'', Signing.fingerprint = None\<rparr>,
      skills = [], hives = []\<rparr>"



definition testuser_manifest :: Manifest where
  "testuser_manifest =
     \<lparr>name = ''test-project'', hub = ''org/repo'', Manifest.project = ''test'',
      Manifest.maintainer = ''testuser'', Manifest.license = ''MIT'',
      identity =
        \<lparr>Identity.handle = ''testuser'', Identity.publicKey = ''ssh-ed25519 AAAA_test_key'',
         Identity.fingerprint = None\<rparr>,
      Manifest.reflexes = \<lparr>Reflexes.signing = False, secretScanning = False,
                           sandboxEnforcer = False, contentFilter = False\<rparr>\<rparr>"



definition alice :: AllowedSigner where
  "alice = \<lparr>email = ''alice@example.com'', keyType = ''ssh-ed25519'',
            AllowedSigner.publicKey = ''ssh-ed25519 AAAA123''\<rparr>"

definition bob :: AllowedSigner where
  "bob = \<lparr>email = ''bob@example.com'', keyType = ''ssh-ed25519'',
          AllowedSigner.publicKey = ''ssh-ed25519 BBBB456''\<rparr>"





text \<open>
  A status with a timestamp that is no date, a phase outside the lifecycle and a negative
  count of tests, and an operator document with nothing but its schema version.
\<close>

definition bad_status :: "(string \<times> jsval) list" where
  "bad_status =
     [(''schemaVersion'', JStr ''1.0''),
      (''generatedAt'', JStr ''not-a-date''),
      (''generatedBy'', JStr ''hive-spoke 0.1.0''),
      (''phase'', JStr ''done''),
      (''tests'', JObj [(''passing'', JNum (- 1)), (''failing'', JNum 0)]),
      (''git'', JObj [(''branch'', JStr ''main''),
                      (''lastCommit'', JStr ''2026-02-07T00:00:00Z''),
                      (''dirty'', JBool False),
                      (''behindRemote'', JNum 0)])]"

definition bare_operator :: "(string \<times> jsval) list" where
  "bare_operator = [(''schemaVersion'', JStr ''1.0'')]"

section \<open>Properties\<close>

subsection \<open>The registry\<close>

lemma signer_line_conv:
  "signer_line m l = (case line_parts l of None \<Rightarrow> m | Some p \<Rightarrow> set_entry m (line_entry p))"
  by (simp add: signer_line_def line_parts_def set_entry_def line_entry_def Let_def)

lemma foldl_signer_line:
  "foldl signer_line m ls = foldl set_entry m (map line_entry (List.map_filter line_parts ls))"
  by (induction ls arbitrary: m)
     (simp_all add: List.map_filter_simps signer_line_conv split: option.split)

lemma parse_conv:
  "parseAllowedSigners (Some c) = foldl set_entry [] (map line_entry (entry_lines c))"
  by (simp add: parseAllowedSigners_def entry_lines_def foldl_signer_line)

lemma update_fresh: "k \<notin> fst ` set m \<Longrightarrow> AList.update k v m = m @ [(k, v)]"
  by (induction m) auto

lemma foldl_set_entry_distinct:
  "distinct (map fst (m @ kvs)) \<Longrightarrow> foldl set_entry m kvs = m @ kvs"
proof (induction kvs arbitrary: m)
  case Nil
  then show ?case by simp
next
  case (Cons kv kvs)
  have fresh: "fst kv \<notin> fst ` set m" using Cons.prems by auto
  have "distinct (map fst ((m @ [kv]) @ kvs))" using Cons.prems by auto
  then have "foldl set_entry (m @ [kv]) kvs = (m @ [kv]) @ kvs" by (rule Cons.IH)
  moreover have "set_entry m kv = m @ [kv]"
    using fresh by (simp add: set_entry_def update_fresh)
  ultimately show ?case by simp
qed

lemma foldl_set_entry_keys:
  "fst ` set (foldl set_entry m kvs) = fst ` set m \<union> fst ` set kvs"
  by (induction kvs arbitrary: m) (auto simp: set_entry_def dom_update)

lemma foldl_set_entry_keys_distinct:
  "distinct (map fst m) \<Longrightarrow> distinct (map fst (foldl set_entry m kvs))"
  by (induction kvs arbitrary: m) (simp_all add: set_entry_def distinct_update)

lemma foldl_set_entry_map_of:
  "map_of (foldl set_entry m kvs) = map_of (rev kvs @ m)"
  by (induction kvs arbitrary: m)
     (auto simp: set_entry_def update_conv' fun_eq_iff map_add_def split: option.split)

lemma foldl_set_entry_values:
  "set (foldl set_entry m kvs) \<subseteq> set m \<union> set kvs"
proof (induction kvs arbitrary: m)
  case Nil
  then show ?case by simp
next
  case (Cons kv kvs)
  have "set (AList.update (fst kv) (snd kv) m) \<subseteq> insert kv (set m)"
    by (induction m) auto
  with Cons.IH [of "set_entry m kv"] show ?case by (auto simp: set_entry_def)
qed

lemma fst_line_entry: "fst (line_entry p) = p ! 0"
  by (simp add: line_entry_def)

text \<open>
  Claim C2, as the program has it.  The keys of the registry are the first pieces of the lines
  that, trimmed, are not empty, do not start with \<^verbatim>\<open>#\<close> and have three pieces or more, and every
  entry of the registry is the entry of such a line: its email is the first piece, its key type
  the second, and its key is the key type, a space and the third piece alone (the pieces after
  the third are dropped).  When the emails of these lines are distinct, the registry has exactly
  one entry for each of them, in the order of the lines.  A line that is blank, starts with
  \<^verbatim>\<open>#\<close> or has fewer than three pieces adds nothing to the registry, and a file that does not
  exist gives the empty registry; the function has no error.
\<close>

theorem parseAllowedSigners_entries:
  "fst ` set (parseAllowedSigners (Some content)) = (\<lambda>parts. parts ! 0) ` set (entry_lines content)
   \<and> set (parseAllowedSigners (Some content)) \<subseteq> line_entry ` set (entry_lines content)
   \<and> (distinct (map (\<lambda>parts. parts ! 0) (entry_lines content)) \<longrightarrow>
        parseAllowedSigners (Some content) = map line_entry (entry_lines content))
   \<and> (trim line = [] \<or> startsWith (trim line) ''#'' \<or> length (split_ws (trim line)) < 3 \<longrightarrow>
        line_parts line = None \<and> signer_line registry line = registry)
   \<and> parseAllowedSigners None = []"
proof (intro conjI impI)
  show "fst ` set (parseAllowedSigners (Some content)) =
        (\<lambda>parts. parts ! 0) ` set (entry_lines content)"
    by (simp add: parse_conv foldl_set_entry_keys image_image fst_line_entry)
  show "set (parseAllowedSigners (Some content)) \<subseteq> line_entry ` set (entry_lines content)"
    using foldl_set_entry_values [of "[]" "map line_entry (entry_lines content)"]
    by (simp add: parse_conv)
  show "parseAllowedSigners (Some content) = map line_entry (entry_lines content)"
    if "distinct (map (\<lambda>parts. parts ! 0) (entry_lines content))"
  proof -
    have "map fst (map line_entry (entry_lines content)) =
          map (\<lambda>parts. parts ! 0) (entry_lines content)"
      by (simp add: fst_line_entry comp_def)
    with that have "distinct (map fst ([] @ map line_entry (entry_lines content)))"
      by (simp only: append_Nil)
    then have "foldl set_entry [] (map line_entry (entry_lines content)) =
               [] @ map line_entry (entry_lines content)"
      by (rule foldl_set_entry_distinct)
    then show ?thesis by (simp add: parse_conv)
  qed
  show "line_parts line = None"
    if "trim line = [] \<or> startsWith (trim line) ''#'' \<or> length (split_ws (trim line)) < 3"
    using that by (auto simp: line_parts_def Let_def)
  show "signer_line registry line = registry"
    if "trim line = [] \<or> startsWith (trim line) ''#'' \<or> length (split_ws (trim line)) < 3"
    using that by (auto simp: signer_line_def Let_def)
  show "parseAllowedSigners None = []"
    by (simp add: parseAllowedSigners_def)
qed

text \<open>
  The theorem on a text with a comment, a line of five pieces, a blank line, a line of two
  pieces and a line of three pieces, and on a comment after two spaces; and on the file that
  starts with a byte order mark, and on a comment after the mark.
\<close>

theorem parseAllowedSigners_entries_witness:
  "distinct (map (\<lambda>parts. parts ! 0) (entry_lines signers_example))
   \<and> trim ''  # a b c'' \<noteq> [] \<and> startsWith (trim ''  # a b c'') ''#''
   \<and> parseAllowedSigners (Some signers_example) =
       [(''alice@example.com'',
         \<lparr>email = ''alice@example.com'', keyType = ''ssh-ed25519'',
          AllowedSigner.publicKey = ''ssh-ed25519 AAAA123''\<rparr>),
        (''carol@example.com'',
         \<lparr>email = ''carol@example.com'', keyType = ''ssh-ed25519'',
          AllowedSigner.publicKey = ''ssh-ed25519 CCCC789''\<rparr>)]
   \<and> signer_line [] ''  # a b c'' = []
   \<and> distinct (map (\<lambda>parts. parts ! 0) (entry_lines signers_marked))
   \<and> startsWith (trim marked_comment) ''#''
   \<and> parseAllowedSigners (Some signers_marked) =
       [(''alice@example.com'',
         \<lparr>email = ''alice@example.com'', keyType = ''ssh-ed25519'',
          AllowedSigner.publicKey = ''ssh-ed25519 AAAA123''\<rparr>),
        (''bob@example.com'',
         \<lparr>email = ''bob@example.com'', keyType = ''ssh-ed25519'',
          AllowedSigner.publicKey = ''ssh-ed25519 BBBB456''\<rparr>)]
   \<and> signer_line [] marked_comment = []"
proof -
  have d: "distinct (map (\<lambda>parts. parts ! 0) (entry_lines signers_example))"
    by code_simp
  have c: "startsWith (trim ''  # a b c'') ''#''"
    by code_simp
  have n: "trim ''  # a b c'' \<noteq> []"
    by code_simp
  have e: "map line_entry (entry_lines signers_example) =
       [(''alice@example.com'',
         \<lparr>email = ''alice@example.com'', keyType = ''ssh-ed25519'',
          AllowedSigner.publicKey = ''ssh-ed25519 AAAA123''\<rparr>),
        (''carol@example.com'',
         \<lparr>email = ''carol@example.com'', keyType = ''ssh-ed25519'',
          AllowedSigner.publicKey = ''ssh-ed25519 CCCC789''\<rparr>)]"
    by code_simp
  have d': "distinct (map (\<lambda>parts. parts ! 0) (entry_lines signers_marked))"
    by code_simp
  have c': "startsWith (trim marked_comment) ''#''"
    by code_simp
  have e': "map line_entry (entry_lines signers_marked) =
       [(''alice@example.com'',
         \<lparr>email = ''alice@example.com'', keyType = ''ssh-ed25519'',
          AllowedSigner.publicKey = ''ssh-ed25519 AAAA123''\<rparr>),
        (''bob@example.com'',
         \<lparr>email = ''bob@example.com'', keyType = ''ssh-ed25519'',
          AllowedSigner.publicKey = ''ssh-ed25519 BBBB456''\<rparr>)]"
    by code_simp
  note t = parseAllowedSigners_entries [of signers_example "''  # a b c''" "[]"]
  note t' = parseAllowedSigners_entries [of signers_marked marked_comment "[]"]
  have p: "parseAllowedSigners (Some signers_example) =
       [(''alice@example.com'',
         \<lparr>email = ''alice@example.com'', keyType = ''ssh-ed25519'',
          AllowedSigner.publicKey = ''ssh-ed25519 AAAA123''\<rparr>),
        (''carol@example.com'',
         \<lparr>email = ''carol@example.com'', keyType = ''ssh-ed25519'',
          AllowedSigner.publicKey = ''ssh-ed25519 CCCC789''\<rparr>)]"
    using t d e by simp
  have l: "signer_line [] ''  # a b c'' = []"
    using t c by simp
  have p': "parseAllowedSigners (Some signers_marked) =
       [(''alice@example.com'',
         \<lparr>email = ''alice@example.com'', keyType = ''ssh-ed25519'',
          AllowedSigner.publicKey = ''ssh-ed25519 AAAA123''\<rparr>),
        (''bob@example.com'',
         \<lparr>email = ''bob@example.com'', keyType = ''ssh-ed25519'',
          AllowedSigner.publicKey = ''ssh-ed25519 BBBB456''\<rparr>)]"
    using t' d' e' by simp
  have l': "signer_line [] marked_comment = []"
    using t' c' by simp
  show ?thesis
    using d n c p l d' c' p' l' by (intro conjI)
qed

text \<open>
  Claim C2 as the specification states it fails on a line with more than three pieces: the key
  of the entry is \<^verbatim>\<open>ssh-ed25519 AAAA123\<close>, and the key with the remaining pieces joined again
  would be \<^verbatim>\<open>ssh-ed25519 AAAA123 alice laptop\<close>.
\<close>

theorem parseAllowedSigners_rejoined_counterexample:
  "parseAllowedSigners (Some ''alice@example.com ssh-ed25519 AAAA123 alice laptop'')
     = [(''alice@example.com'',
         \<lparr>email = ''alice@example.com'', keyType = ''ssh-ed25519'',
          AllowedSigner.publicKey = ''ssh-ed25519 AAAA123''\<rparr>)]
   \<and> map rejoined_entry (entry_lines ''alice@example.com ssh-ed25519 AAAA123 alice laptop'')
     = [(''alice@example.com'',
         \<lparr>email = ''alice@example.com'', keyType = ''ssh-ed25519'',
          AllowedSigner.publicKey = ''ssh-ed25519 AAAA123 alice laptop''\<rparr>)]"
  by code_simp

text \<open>
  Claim C10.  The registry has one entry for an email, so its size is the number of the
  distinct emails of the lines that make an entry; and the entry under an email is the entry of
  the last of these lines with that email.
\<close>

theorem parseAllowedSigners_last_wins:
  "distinct (map fst (parseAllowedSigners (Some content)))
   \<and> length (parseAllowedSigners (Some content)) =
       card ((\<lambda>parts. parts ! 0) ` set (entry_lines content))
   \<and> (entry_lines content = before @ parts # after \<and>
        (\<forall>later \<in> set after. later ! 0 \<noteq> parts ! 0) \<longrightarrow>
        map_of (parseAllowedSigners (Some content)) (parts ! 0) = Some (snd (line_entry parts)))"
proof (intro conjI impI)
  let ?R = "parseAllowedSigners (Some content)"
  show d: "distinct (map fst ?R)"
    by (simp add: parse_conv foldl_set_entry_keys_distinct)
  have "length ?R = length (map fst ?R)" by simp
  also have "\<dots> = card (set (map fst ?R))" using d by (simp only: distinct_card)
  also have "set (map fst ?R) = (\<lambda>parts. parts ! 0) ` set (entry_lines content)"
    by (simp add: parse_conv foldl_set_entry_keys image_image fst_line_entry)
  finally show "length ?R = card ((\<lambda>parts. parts ! 0) ` set (entry_lines content))" .
  show "map_of ?R (parts ! 0) = Some (snd (line_entry parts))"
    if h: "entry_lines content = before @ parts # after \<and>
           (\<forall>later \<in> set after. later ! 0 \<noteq> parts ! 0)"
  proof -
    have "parts ! 0 \<notin> fst ` set (rev (map line_entry after))"
      using h by (auto simp: fst_line_entry)
    then have none: "map_of (rev (map line_entry after)) (parts ! 0) = None"
      by (metis map_of_eq_None_iff)
    have "?R = foldl set_entry [] (map line_entry (before @ parts # after))"
      using h by (simp only: parse_conv)
    then have "map_of ?R = map_of (rev (map line_entry (before @ parts # after)) @ [])"
      by (simp only: foldl_set_entry_map_of)
    then have "map_of ?R =
        map_of (rev (map line_entry after) @ line_entry parts # rev (map line_entry before))"
      by simp
    then show ?thesis
      using none by (simp add: map_add_def line_entry_def)
  qed
qed

text \<open>
  The theorem on a text of three lines, the first and the last for the same email: the
  registry has two entries, and the entry of that email has the key of the last line.  And on
  the file of two lines for one email that starts with a byte order mark: the registry has one
  entry, with the key of the last line.
\<close>

theorem parseAllowedSigners_last_wins_witness:
  "length (entry_lines signers_twice) = 3
   \<and> length (parseAllowedSigners (Some signers_twice)) = 2
   \<and> map_of (parseAllowedSigners (Some signers_twice)) ''alice@example.com''
       = Some \<lparr>email = ''alice@example.com'', keyType = ''ssh-ed25519'',
               AllowedSigner.publicKey = ''ssh-ed25519 ZZZZ999''\<rparr>
   \<and> length (entry_lines signers_marked_twice) = 2
   \<and> length (parseAllowedSigners (Some signers_marked_twice)) = 1
   \<and> map_of (parseAllowedSigners (Some signers_marked_twice)) ''alice@example.com''
       = Some \<lparr>email = ''alice@example.com'', keyType = ''ssh-ed25519'',
               AllowedSigner.publicKey = ''ssh-ed25519 ZZZZ999''\<rparr>"
proof -
  have e: "entry_lines signers_twice =
       [[''alice@example.com'', ''ssh-ed25519'', ''AAAA123''],
        [''bob@example.com'', ''ssh-ed25519'', ''BBBB456'']] @
       [''alice@example.com'', ''ssh-ed25519'', ''ZZZZ999''] # []"
    by code_simp
  have c: "card ((\<lambda>parts. parts ! 0) ` set (entry_lines signers_twice)) = 2"
    by code_simp
  have e': "entry_lines signers_marked_twice =
       [[''alice@example.com'', ''ssh-ed25519'', ''AAAA123'']] @
       [''alice@example.com'', ''ssh-ed25519'', ''ZZZZ999''] # []"
    by code_simp
  have c': "card ((\<lambda>parts. parts ! 0) ` set (entry_lines signers_marked_twice)) = 1"
    by code_simp
  note t = parseAllowedSigners_last_wins
         [of signers_twice
             "[[''alice@example.com'', ''ssh-ed25519'', ''AAAA123''],
               [''bob@example.com'', ''ssh-ed25519'', ''BBBB456'']]"
             "[''alice@example.com'', ''ssh-ed25519'', ''ZZZZ999'']" "[]"]
  note t' = parseAllowedSigners_last_wins
         [of signers_marked_twice
             "[[''alice@example.com'', ''ssh-ed25519'', ''AAAA123'']]"
             "[''alice@example.com'', ''ssh-ed25519'', ''ZZZZ999'']" "[]"]
  have a: "length (entry_lines signers_twice) = 3
     \<and> length (parseAllowedSigners (Some signers_twice)) = 2
     \<and> map_of (parseAllowedSigners (Some signers_twice)) ''alice@example.com''
       = Some \<lparr>email = ''alice@example.com'', keyType = ''ssh-ed25519'',
               AllowedSigner.publicKey = ''ssh-ed25519 ZZZZ999''\<rparr>"
    using t e c by (simp add: line_entry_def)
  have a': "length (entry_lines signers_marked_twice) = 2
     \<and> length (parseAllowedSigners (Some signers_marked_twice)) = 1
     \<and> map_of (parseAllowedSigners (Some signers_marked_twice)) ''alice@example.com''
       = Some \<lparr>email = ''alice@example.com'', keyType = ''ssh-ed25519'',
               AllowedSigner.publicKey = ''ssh-ed25519 ZZZZ999''\<rparr>"
    using t' e' c' by (simp add: line_entry_def)
  from a a' show ?thesis by simp
qed

subsection \<open>The search in the registry\<close>

lemma match_signers_conv:
  "match_signers k reg =
     (if \<exists>s \<in> snd ` set reg. key_parts_match k (AllowedSigner.publicKey s)
      then (True, True) else (False, False))"
  by (induction k reg rule: match_signers.induct) auto

lemma match_signers_local_conv:
  "match_signers_local k reg =
     (if \<exists>s \<in> snd ` set reg. startsWith k (AllowedSigner.publicKey s) \<or>
                                key_parts_match k (AllowedSigner.publicKey s)
      then (True, True) else (False, False))"
  by (induction k reg rule: match_signers_local.induct) auto

text \<open>
  Claim C1, as the program has it.  The verify command that reads the manifests under
  \<^verbatim>\<open>projects/\<close> finds a key in the registry exactly when the key starts with the key of an entry
  or the first two pieces of both keys are there and equal.  The verify command that fetches
  the manifests from the spoke repositories has no test of the prefix: it finds a key exactly
  when the first two pieces of the key and of the key of an entry are there and equal.  Both
  go through the entries in the order of insertion and stop at the first entry that matches,
  whatever comes after it, and find nothing in a registry without a match.
\<close>

theorem verify_matching:
  "fst (match_signers_local spokeKey reg) =
     (\<exists>s \<in> snd ` set reg. startsWith spokeKey (AllowedSigner.publicKey s) \<or>
                           key_parts_match spokeKey (AllowedSigner.publicKey s))
   \<and> fst (match_signers spokeKey reg) =
     (\<exists>s \<in> snd ` set reg. key_parts_match spokeKey (AllowedSigner.publicKey s))
   \<and> (startsWith spokeKey (AllowedSigner.publicKey s) \<or>
       key_parts_match spokeKey (AllowedSigner.publicKey s) \<longrightarrow>
        match_signers_local spokeKey (before @ (e, s) # rest) = (True, True))
   \<and> (key_parts_match spokeKey (AllowedSigner.publicKey s) \<longrightarrow>
        match_signers spokeKey (before @ (e, s) # rest) = (True, True))
   \<and> match_signers_local spokeKey [] = (False, False)
   \<and> match_signers spokeKey [] = (False, False)"
  by (auto simp: match_signers_conv match_signers_local_conv)

text \<open>
  The theorem on the registry of bob and alice: the key of alice is found by both commands,
  also with a comment after a no-break space, and the key \<^verbatim>\<open>ssh-ed25519 ZZZZ999\<close> by none.
\<close>

theorem verify_matching_witness:
  "key_parts_match ''ssh-ed25519 AAAA123'' (AllowedSigner.publicKey alice)
   \<and> startsWith ''ssh-ed25519 AAAA123'' (AllowedSigner.publicKey alice)
   \<and> match_signers ''ssh-ed25519 AAAA123''
        ([(''bob@example.com'', bob)] @ (''alice@example.com'', alice) # []) = (True, True)
   \<and> match_signers_local ''ssh-ed25519 AAAA123''
        ([(''bob@example.com'', bob)] @ (''alice@example.com'', alice) # []) = (True, True)
   \<and> key_parts_match laptop_key (AllowedSigner.publicKey alice)
   \<and> match_signers laptop_key
        ([(''bob@example.com'', bob)] @ (''alice@example.com'', alice) # []) = (True, True)
   \<and> match_signers_local laptop_key
        ([(''bob@example.com'', bob)] @ (''alice@example.com'', alice) # []) = (True, True)
   \<and> \<not> fst (match_signers ''ssh-ed25519 ZZZZ999''
        [(''bob@example.com'', bob), (''alice@example.com'', alice)])
   \<and> \<not> fst (match_signers_local ''ssh-ed25519 ZZZZ999''
        [(''bob@example.com'', bob), (''alice@example.com'', alice)])"
proof -
  have k: "key_parts_match ''ssh-ed25519 AAAA123'' (AllowedSigner.publicKey alice)"
    by code_simp
  have p: "startsWith ''ssh-ed25519 AAAA123'' (AllowedSigner.publicKey alice)"
    by code_simp
  have k': "key_parts_match laptop_key (AllowedSigner.publicKey alice)"
    by code_simp
  have n: "\<not> (\<exists>s \<in> snd ` set [(''bob@example.com'', bob), (''alice@example.com'', alice)].
              startsWith ''ssh-ed25519 ZZZZ999'' (AllowedSigner.publicKey s) \<or>
              key_parts_match ''ssh-ed25519 ZZZZ999'' (AllowedSigner.publicKey s))"
    by code_simp
  note t = verify_matching [of "''ssh-ed25519 AAAA123''" _ alice "[(''bob@example.com'', bob)]"
         "''alice@example.com''" "[]"]
  note t' = verify_matching [of laptop_key _ alice "[(''bob@example.com'', bob)]"
         "''alice@example.com''" "[]"]
  note u = verify_matching [of "''ssh-ed25519 ZZZZ999''"
         "[(''bob@example.com'', bob), (''alice@example.com'', alice)]"]
  have a: "match_signers ''ssh-ed25519 AAAA123''
        ([(''bob@example.com'', bob)] @ (''alice@example.com'', alice) # []) = (True, True)"
      "match_signers_local ''ssh-ed25519 AAAA123''
        ([(''bob@example.com'', bob)] @ (''alice@example.com'', alice) # []) = (True, True)"
    using t k p by simp_all
  have a': "match_signers laptop_key
        ([(''bob@example.com'', bob)] @ (''alice@example.com'', alice) # []) = (True, True)"
      "match_signers_local laptop_key
        ([(''bob@example.com'', bob)] @ (''alice@example.com'', alice) # []) = (True, True)"
    using t' k' by simp_all
  have b: "\<not> fst (match_signers ''ssh-ed25519 ZZZZ999''
        [(''bob@example.com'', bob), (''alice@example.com'', alice)])"
      "\<not> fst (match_signers_local ''ssh-ed25519 ZZZZ999''
        [(''bob@example.com'', bob), (''alice@example.com'', alice)])"
    using u n by simp_all
  show ?thesis
    using k p a k' a' b by (intro conjI)
qed

text \<open>
  Claim C1 as the specification states it fails on the command that fetches the manifests: the
  key \<^verbatim>\<open>ssh-ed25519 AAAA123XYZ\<close> starts with the key of the entry of alice, and the command
  does not find it.
\<close>

theorem verify_matching_counterexample:
  "startsWith ''ssh-ed25519 AAAA123XYZ''
     (AllowedSigner.publicKey
        (snd (hd (parseAllowedSigners (Some ''alice@example.com ssh-ed25519 AAAA123'')))))
   \<and> match_signers ''ssh-ed25519 AAAA123XYZ''
       (parseAllowedSigners (Some ''alice@example.com ssh-ed25519 AAAA123'')) = (False, False)"
  by code_simp

subsection \<open>The schema library\<close>

lemma is_ok_simps [simp]:
  "is_ok INVALID = False" "is_ok (DIRTY v) = False" "is_ok (OK v) = True"
  by (simp_all add: is_ok_def)

lemma is_flag_simps [simp]:
  "is_aborted INVALID = True" "is_aborted (DIRTY v) = False" "is_aborted (OK v) = False"
  "is_dirty INVALID = False" "is_dirty (DIRTY v) = True" "is_dirty (OK v) = False"
  by (simp_all add: is_aborted_def is_dirty_def)

lemma is_ok_iff: "is_ok r \<longleftrightarrow> \<not> is_aborted r \<and> \<not> is_dirty r"
  by (cases r) simp_all

lemma checked_ok: "is_ok (snd (checked p msgs d)) \<longleftrightarrow> fst (checked p msgs d) = []"
  by (simp add: checked_def)

lemma mergeObjectSync_ok:
  "is_ok (mergeObjectSync pairs) \<longleftrightarrow> (\<forall>kr \<in> set pairs. is_ok (snd kr))"
  by (auto simp: mergeObjectSync_def Let_def list_ex_iff is_ok_iff)

lemma mergeArray_ok:
  "is_ok (mergeArray results) \<longleftrightarrow> (\<forall>r \<in> set results. is_ok r)"
  by (auto simp: mergeArray_def Let_def list_ex_iff is_ok_iff)



lemma zrun_ok_iff: "is_ok (snd (zrun s p d)) \<longleftrightarrow> fst (zrun s p d) = []"
proof (induction s p d rule: zrun.induct)
  case (1 checks p d)
  show ?case by (cases d; (cases "the d")?) (simp_all add: checked_ok)
next
  case (2 checks p d)
  show ?case by (cases d; (cases "the d")?) (simp_all add: checked_ok)
next
  case (3 p d)
  show ?case by (cases d; (cases "the d")?) simp_all
next
  case (4 v p d)
  show ?case by simp
next
  case (5 "values" errorMap p d)
  show ?case by (cases d; (cases "the d")?) simp_all
next
  case (6 shape p d)
  show ?case
  proof (cases d)
    case None
    then show ?thesis by simp
  next
    case (Some x)
    show ?thesis
    proof (cases x)
      case (JObj fs)
      have "is_ok (snd (zrun (snd ks) (p @ [fst ks]) (map_of fs (fst ks)))) \<longleftrightarrow>
            fst (zrun (snd ks) (p @ [fst ks]) (map_of fs (fst ks))) = []"
        if "ks \<in> set shape" for ks
        by (rule "6.IH" [OF Some JObj that])
      then show ?thesis
        using Some JObj by (simp add: mergeObjectSync_ok Let_def)
    qed (simp_all add: Some)
  qed
next
  case (7 element p d)
  show ?case
  proof (cases d)
    case None
    then show ?thesis by simp
  next
    case (Some x)
    show ?thesis
    proof (cases x)
      case (JArr xs)
      have "is_ok (snd (zrun element (p @ [show_nat (fst ix)]) (Some (snd ix)))) \<longleftrightarrow>
            fst (zrun element (p @ [show_nat (fst ix)]) (Some (snd ix))) = []"
        if "ix \<in> set (List.enumerate 0 xs)" for ix
        by (rule "7.IH" [OF Some JArr that])
      then show ?thesis
        using Some JArr by (simp add: mergeArray_ok Let_def)
    qed (simp_all add: Some)
  qed
next
  case (8 inner p d)
  then show ?case by simp
next
  case (9 inner defaultValue p d)
  then show ?case by simp
next
  case (10 inner refinement msg p d)
  then show ?case
    by (cases "zrun inner p d"; cases "snd (zrun inner p d)") simp_all
qed

lemma zrun_OK_no_issues: "zrun s p d = (iss, OK v) \<Longrightarrow> iss = []"
  using zrun_ok_iff [of s p d] by simp

lemma zrun_no_issues_OK: "fst (zrun s p d) = [] \<Longrightarrow> \<exists>v. zrun s p d = ([], OK v)"
  using zrun_ok_iff [of s p d]
  by (cases "zrun s p d"; cases "snd (zrun s p d)") simp_all

lemma zparse_Inr_iff: "zparse s d = Inr v \<longleftrightarrow> zrun s [] d = ([], OK v)"
proof (cases "zrun s [] d")
  case (Pair iss r)
  then show ?thesis
    using zrun_OK_no_issues [of s "[]" d iss]
    by (cases r) (auto simp: zparse_def)
qed

lemma zparse_Inl:
  "zparse s d = Inl e \<Longrightarrow> e = ZodError (fst (zrun s [] d)) \<and> fst (zrun s [] d) \<noteq> []"
proof (cases "zrun s [] d")
  case (Pair iss r)
  assume e: "zparse s d = Inl e"
  have "iss \<noteq> []" if "\<not> is_ok r"
    using that zrun_ok_iff [of s "[]" d] Pair by simp
  then show ?thesis
    using Pair e by (cases r) (auto simp: zparse_def split: if_splits)
qed

lemma zparse_cases:
  "(\<exists>v. zparse s d = Inr v \<and> fst (zrun s [] d) = []) \<or>
   (zparse s d = Inl (ZodError (fst (zrun s [] d))) \<and> fst (zrun s [] d) \<noteq> [])"
proof (cases "zparse s d")
  case (Inl e)
  then show ?thesis using zparse_Inl [of s d e] by simp
next
  case (Inr v)
  then show ?thesis by (simp add: zparse_Inr_iff)
qed

lemma zrun_object_issues:
  "fst (zrun (ZObject shape) p (Some (JObj fs))) =
     concat (map (\<lambda>ks. fst (zrun (snd ks) (p @ [fst ks]) (map_of fs (fst ks)))) shape)"
  by (simp add: Let_def comp_def)

lemma zrun_object_field_issues:
  "(k, s) \<in> set shape \<Longrightarrow>
   set (fst (zrun s (p @ [k]) (map_of fs k))) \<subseteq> set (fst (zrun (ZObject shape) p (Some (JObj fs))))"
  by (force simp: zrun_object_issues)

lemma zrun_object_OK_obj:
  assumes "zrun (ZObject shape) p d = (iss, OK v)"
  shows "\<exists>fs. d = Some (JObj fs)"
  using assms by (cases d; (cases "the d")?) simp_all

lemma map_of_concat_fields:
  "distinct (map fst shape) \<Longrightarrow> (k, s) \<in> set shape \<Longrightarrow>
   map_of (concat (map (\<lambda>ks. case g ks of None \<Rightarrow> [] | Some v \<Rightarrow> [(fst ks, v)]) shape)) k
     = g (k, s)"
proof (induction shape)
  case Nil
  then show ?case by simp
next
  case (Cons a shape)
  show ?case
  proof (cases "a = (k, s)")
    case True
    have "k \<notin> fst ` set shape" using Cons.prems True by auto
    then have "map_of (concat (map (\<lambda>ks. case g ks of None \<Rightarrow> [] | Some v \<Rightarrow> [(fst ks, v)]) shape)) k = None"
      by (induction shape) (auto split: option.split)
    then show ?thesis using True by (simp split: option.split)
  next
    case False
    then have in_rest: "(k, s) \<in> set shape" using Cons.prems by simp
    then have "k \<in> fst ` set shape" by force
    then have "fst a \<noteq> k" using Cons.prems by auto
    then show ?thesis using Cons.IH in_rest Cons.prems by (simp split: option.split)
  qed
qed

lemma zrun_object_field:
  assumes run: "zrun (ZObject shape) p d = (iss, OK v)"
    and keys: "distinct (map fst shape)"
    and field: "(k, s) \<in> set shape"
  shows "zrun s (p @ [k]) (member d k) = ([], OK (member v k))"
proof -
  obtain fs where d: "d = Some (JObj fs)" using zrun_object_OK_obj [OF run] by blast
  let ?r = "\<lambda>ks. zrun (snd ks) (p @ [fst ks]) (map_of fs (fst ks))"
  let ?pairs = "map (\<lambda>ks. (fst ks, snd (?r ks))) shape"
  have merged: "mergeObjectSync ?pairs = OK v"
    using run d by (simp add: Let_def comp_def)
  then have "is_ok (mergeObjectSync ?pairs)" by simp
  then have oks: "is_ok (snd (?r ks))" if "ks \<in> set shape" for ks
    using that by (auto simp: mergeObjectSync_ok)
  have "is_ok (snd (?r (k, s)))" using oks [OF field] .
  then obtain v' where v': "?r (k, s) = ([], OK v')"
    using zrun_ok_iff [of s "p @ [k]" "map_of fs k"]
    by (cases "?r (k, s)"; cases "snd (?r (k, s))") simp_all
  have no_abort: "\<not> list_ex (\<lambda>kr. is_aborted (snd kr)) ?pairs"
    using oks by (auto simp: list_ex_iff is_ok_iff)
  have no_dirty: "\<not> list_ex (\<lambda>kr. is_dirty (snd kr)) ?pairs"
    using oks by (auto simp: list_ex_iff is_ok_iff)
  have "v = Some (JObj (concat (map (\<lambda>ks. case parsed_value (snd (?r ks)) of
                                              None \<Rightarrow> [] | Some v \<Rightarrow> [(fst ks, v)]) shape)))"
    using merged no_abort no_dirty
    by (simp add: mergeObjectSync_def Let_def comp_def cong: option.case_cong)
  then have "member v k = parsed_value (snd (?r (k, s)))"
    using map_of_concat_fields [OF keys field, of "\<lambda>ks. parsed_value (snd (?r ks))"]
    by (simp add: member_def)
  then have "member v k = v'" using v' by simp
  then show ?thesis using v' d by (simp add: member_def)
qed

lemma zrun_string_OK:
  assumes "zrun (ZString checks) p d = (iss, OK v)"
  shows "\<exists>s. d = Some (JStr s) \<and> v = d \<and> (\<forall>c \<in> set checks. check_string c s = None)"
proof -
  obtain s where d: "d = Some (JStr s)"
    using assms by (cases d; (cases "the d")?) simp_all
  have "List.map_filter (\<lambda>c. check_string c s) checks = []" "v = d"
    using assms d by (auto simp: checked_def split: if_splits)
  then show ?thesis using d
    by (auto simp: List.map_filter_def filter_empty_conv)
qed

lemma zrun_literal_OK:
  "zrun (ZLiteral lit) p d = (iss, OK v) \<Longrightarrow> d = Some (JStr lit) \<and> v = d"
  by (simp split: if_splits)

lemma zrun_enum_OK:
  assumes "zrun (ZEnum vs em) p d = (iss, OK v)"
  shows "\<exists>s. d = Some (JStr s) \<and> v = d \<and> s \<in> set vs"
  using assms by (cases d; (cases "the d")?) (simp_all split: if_splits)

lemma zrun_boolean_OK:
  assumes "zrun ZBoolean p d = (iss, OK v)"
  shows "\<exists>b. d = Some (JBool b) \<and> v = d"
  using assms by (cases d; (cases "the d")?) auto

lemma zrun_count_OK:
  assumes "zrun (ZNumber [Int_check, Nonnegative_check]) p d = (iss, OK v)"
  shows "\<exists>n. d = Some (JNum (of_int n)) \<and> v = d \<and> 0 \<le> n"
proof -
  consider r where "d = Some (JNum r)" | b where "d = Some (JInfinity b)"
    using assms by (cases d; (cases "the d")?) simp_all
  then show ?thesis
  proof cases
    case 1
    then have "r = of_int \<lfloor>r\<rfloor>" "\<not> r < 0" "v = d"
      using assms by (auto simp: checked_def List.map_filter_simps split: if_splits)
    then have "d = Some (JNum (of_int \<lfloor>r\<rfloor>))" "0 \<le> \<lfloor>r\<rfloor>" using 1 by simp_all
    with \<open>v = d\<close> show ?thesis by blast
  next
    case 2
    then show ?thesis
      using assms by (auto simp: checked_def List.map_filter_simps split: if_splits)
  qed
qed

lemma zrun_optional_OK:
  "zrun (ZOptional inner) p d = (iss, OK v) \<Longrightarrow>
   (d = None \<and> v = None) \<or> (d \<noteq> None \<and> zrun inner p d = (iss, OK v))"
  by (simp split: if_splits)

lemma zrun_default_OK:
  "zrun (ZDefault inner dv) p d = (iss, OK v) \<Longrightarrow>
   zrun inner p (if d = None then Some dv else d) = (iss, OK v)"
  by (cases d) simp_all

lemma zrun_refine_OK:
  assumes "zrun (ZRefine inner f msg) p d = (iss, OK v)"
  shows "zrun inner p d = (iss, OK v) \<and> f v"
  using assms
  by (cases "zrun inner p d"; cases "snd (zrun inner p d)") (auto split: if_splits)

lemma take_prefix_app:
  assumes "take (length (p @ q)) xs = p @ q"
  shows "take (length p) xs = p"
proof -
  have "take (length p) xs = take (length p) (take (length (p @ q)) xs)"
    by (simp add: min_def)
  also have "\<dots> = take (length p) (p @ q)"
    by (simp only: assms)
  finally show ?thesis by simp
qed

lemma zrun_paths: "i \<in> set (fst (zrun s p d)) \<Longrightarrow> take (length p) (path i) = p"
proof (induction s p d arbitrary: i rule: zrun.induct)
  case (1 checks p d)
  then show ?case by (cases d; (cases "the d")?) (auto simp: checked_def invalid_type_def)
next
  case (2 checks p d)
  then show ?case by (cases d; (cases "the d")?) (auto simp: checked_def invalid_type_def)
next
  case (3 p d)
  then show ?case by (cases d; (cases "the d")?) (auto simp: invalid_type_def)
next
  case (4 v p d)
  then show ?case by (auto split: if_splits)
next
  case (5 "values" errorMap p d)
  then show ?case by (cases d; (cases "the d")?) (auto simp: invalid_type_def split: if_splits)
next
  case (6 shape p d)
  show ?case
  proof (cases d)
    case None
    then show ?thesis using "6.prems" by (simp add: invalid_type_def)
  next
    case (Some x)
    show ?thesis
    proof (cases x)
      case (JObj fs)
      from "6.prems" Some JObj obtain ks where ks: "ks \<in> set shape"
        and i: "i \<in> set (fst (zrun (snd ks) (p @ [fst ks]) (map_of fs (fst ks))))"
        by (auto simp: Let_def)
      have "take (length (p @ [fst ks])) (path i) = p @ [fst ks]"
        by (rule "6.IH" [OF Some JObj ks i])
      then show ?thesis by (rule take_prefix_app)
    qed (use "6.prems" Some in \<open>simp_all add: invalid_type_def\<close>)
  qed
next
  case (7 element p d)
  show ?case
  proof (cases d)
    case None
    then show ?thesis using "7.prems" by (simp add: invalid_type_def)
  next
    case (Some x)
    show ?thesis
    proof (cases x)
      case (JArr xs)
      from "7.prems" Some JArr obtain ix where ix: "ix \<in> set (List.enumerate 0 xs)"
        and i: "i \<in> set (fst (zrun element (p @ [show_nat (fst ix)]) (Some (snd ix))))"
        by (auto simp: Let_def)
      have "take (length (p @ [show_nat (fst ix)])) (path i) = p @ [show_nat (fst ix)]"
        by (rule "7.IH" [OF Some JArr ix i])
      then show ?thesis by (rule take_prefix_app)
    qed (use "7.prems" Some in \<open>simp_all add: invalid_type_def\<close>)
  qed
next
  case (8 inner p d)
  then show ?case by (cases "d = None") simp_all
next
  case (9 inner defaultValue p d)
  then show ?case by (cases "d = None") simp_all
next
  case (10 inner refinement msg p d)
  then show ?case
    by (cases "zrun inner p d"; cases "snd (zrun inner p d)") (auto split: if_splits)
qed

subsection \<open>The manifest schema\<close>

lemma zrun_optional_string_OK:
  assumes "zrun (ZOptional (ZString checks)) p d = (iss, OK v)"
  shows "v = d \<and> (d = None \<or> (\<exists>s. d = Some (JStr s) \<and> (\<forall>c \<in> set checks. check_string c s = None)))"
  using zrun_optional_OK [OF assms] zrun_string_OK [of checks p d iss v] by auto

lemma manifest_fields:
  assumes ok: "zparse ManifestSchema raw = Inr v"
  shows "member v ''name'' = member raw ''name''"
    and "member v ''hub'' = member raw ''hub''"
    and "member v ''project'' = member raw ''project''"
    and "member v ''maintainer'' = member raw ''maintainer''"
    and "member v ''license'' = member raw ''license''"
    and "member (member v ''identity'') ''handle'' = member (member raw ''identity'') ''handle''"
    and "member (member v ''identity'') ''publicKey'' = member (member raw ''identity'') ''publicKey''"
    and "member (member v ''identity'') ''fingerprint'' = member (member raw ''identity'') ''fingerprint''"
    and "\<exists>s. member raw ''name'' = Some (JStr s) \<and> s \<noteq> []"
    and "\<exists>s. member raw ''hub'' = Some (JStr s) \<and> org_repo_pattern s"
    and "\<exists>s. member raw ''project'' = Some (JStr s) \<and> s \<noteq> []"
    and "\<exists>s. member raw ''maintainer'' = Some (JStr s) \<and> handle_pattern s"
    and "\<exists>s. member raw ''license'' = Some (JStr s) \<and> s \<in> set ACCEPTED_LICENSES"
    and "\<exists>s. member (member raw ''identity'') ''handle'' = Some (JStr s) \<and> s \<noteq> []"
    and "\<exists>s. member (member raw ''identity'') ''publicKey'' = Some (JStr s) \<and> startsWith s ''ssh-ed25519 ''"
    and "member (member raw ''identity'') ''fingerprint'' = None \<or>
         (\<exists>s. member (member raw ''identity'') ''fingerprint'' = Some (JStr s) \<and> fingerprint_pattern s)"
    and "member raw ''schemaVersion'' = Some (JStr ''1.0'')"
proof -
  have run: "zrun ManifestSchema [] raw = ([], OK v)"
    using ok by (simp add: zparse_Inr_iff)
  note top = zrun_object_field [OF run [unfolded ManifestSchema_def], simplified]
  have name: "zrun (ZString [Min_check 1 (Some ''Project name is required'')]) [''name'']
                (member raw ''name'') = ([], OK (member v ''name''))"
    by (rule top) simp
  have hub: "zrun (ZString [Regex_check org_repo_pattern ''Hub must be in org/repo format'']) [''hub'']
                (member raw ''hub'') = ([], OK (member v ''hub''))"
    by (rule top) simp
  have project: "zrun (ZString [Min_check 1 (Some ''Project identifier is required'')]) [''project'']
                (member raw ''project'') = ([], OK (member v ''project''))"
    by (rule top) simp
  have maintainer: "zrun (ZString [Regex_check handle_pattern ''Maintainer must be a valid GitHub handle'']) [''maintainer'']
                (member raw ''maintainer'') = ([], OK (member v ''maintainer''))"
    by (rule top) simp
  have license: "zrun (ZEnum ACCEPTED_LICENSES (Some (''License must be one of: '' @ join '', '' ACCEPTED_LICENSES))) [''license'']
                (member raw ''license'') = ([], OK (member v ''license''))"
    by (rule top) simp
  have version: "zrun (ZLiteral ''1.0'') [''schemaVersion'']
                (member raw ''schemaVersion'') = ([], OK (member v ''schemaVersion''))"
    by (rule top) simp
  have identity: "zrun (ZObject
         [(''handle'', ZString [Min_check 1 (Some ''Identity handle is required'')]),
          (''publicKey'',
             ZString [StartsWith_check ''ssh-ed25519 '' ''Public key must be an Ed25519 SSH key'']),
          (''fingerprint'',
             ZOptional
               (ZString [Regex_check fingerprint_pattern ''Fingerprint must be SHA256 format'']))]) [''identity'']
                (member raw ''identity'') = ([], OK (member v ''identity''))"
    by (rule top) simp
  note sub = zrun_object_field [OF identity, simplified]
  have handle: "zrun (ZString [Min_check 1 (Some ''Identity handle is required'')]) [''identity'', ''handle'']
                (member (member raw ''identity'') ''handle'') = ([], OK (member (member v ''identity'') ''handle''))"
    by (rule sub) simp
  have key: "zrun (ZString [StartsWith_check ''ssh-ed25519 '' ''Public key must be an Ed25519 SSH key'']) [''identity'', ''publicKey'']
                (member (member raw ''identity'') ''publicKey'') = ([], OK (member (member v ''identity'') ''publicKey''))"
    by (rule sub) simp
  have fp: "zrun (ZOptional (ZString [Regex_check fingerprint_pattern ''Fingerprint must be SHA256 format''])) [''identity'', ''fingerprint'']
                (member (member raw ''identity'') ''fingerprint'') = ([], OK (member (member v ''identity'') ''fingerprint''))"
    by (rule sub) simp
  show "member v ''name'' = member raw ''name''"
    and "\<exists>s. member raw ''name'' = Some (JStr s) \<and> s \<noteq> []"
    using zrun_string_OK [OF name] by (auto split: if_splits)
  show "member v ''hub'' = member raw ''hub''"
    and "\<exists>s. member raw ''hub'' = Some (JStr s) \<and> org_repo_pattern s"
    using zrun_string_OK [OF hub] by (auto split: if_splits)
  show "member v ''project'' = member raw ''project''"
    and "\<exists>s. member raw ''project'' = Some (JStr s) \<and> s \<noteq> []"
    using zrun_string_OK [OF project] by (auto split: if_splits)
  show "member v ''maintainer'' = member raw ''maintainer''"
    and "\<exists>s. member raw ''maintainer'' = Some (JStr s) \<and> handle_pattern s"
    using zrun_string_OK [OF maintainer] by (auto split: if_splits)
  show "member v ''license'' = member raw ''license''"
    and "\<exists>s. member raw ''license'' = Some (JStr s) \<and> s \<in> set ACCEPTED_LICENSES"
    using zrun_enum_OK [OF license] by auto
  show "member (member v ''identity'') ''handle'' = member (member raw ''identity'') ''handle''"
    and "\<exists>s. member (member raw ''identity'') ''handle'' = Some (JStr s) \<and> s \<noteq> []"
    using zrun_string_OK [OF handle] by (auto split: if_splits)
  show "member (member v ''identity'') ''publicKey'' = member (member raw ''identity'') ''publicKey''"
    and "\<exists>s. member (member raw ''identity'') ''publicKey'' = Some (JStr s) \<and> startsWith s ''ssh-ed25519 ''"
    using zrun_string_OK [OF key] by (auto split: if_splits)
  show "member (member v ''identity'') ''fingerprint'' = member (member raw ''identity'') ''fingerprint''"
    and "member (member raw ''identity'') ''fingerprint'' = None \<or>
         (\<exists>s. member (member raw ''identity'') ''fingerprint'' = Some (JStr s) \<and> fingerprint_pattern s)"
    using zrun_optional_string_OK [OF fp] by (auto split: if_splits)
  show "member raw ''schemaVersion'' = Some (JStr ''1.0'')"
    using zrun_literal_OK [OF version] by simp
qed

lemma rejected_atI:
  assumes "i \<in> set (fst (zrun ManifestSchema [] raw))" "path i = p"
  shows "rejected_at (ManifestSchema_parse raw) p"
proof -
  have "fst (zrun ManifestSchema [] raw) \<noteq> []" using assms by auto
  then have "zparse ManifestSchema raw = Inl (ZodError (fst (zrun ManifestSchema [] raw)))"
    using zparse_cases [of ManifestSchema raw] by auto
  then show ?thesis
    using assms by (auto simp: rejected_at_def ManifestSchema_parse_def list_ex_iff)
qed

lemma manifest_field_issue:
  assumes "(k, s) \<in> set shape" "ManifestSchema = ZObject shape"
    and "i \<in> set (fst (zrun s [k] (map_of fs k)))"
  shows "i \<in> set (fst (zrun ManifestSchema [] (Some (JObj fs))))"
  using zrun_object_field_issues [of k s shape "[]" fs] assms by (auto simp del: zrun.simps)

lemma not_word_slash: "\<not> (is_word CHR ''/'' \<or> CHR ''/'' = CHR ''-'')"
  by (simp add: is_word_def is_alnum_def)

text \<open>The function \<^const>\<open>org_repo_pattern\<close> decides the pattern \<^verbatim>\<open>^[\w-]+\/[\w.-]+$\<close>.\<close>

lemma org_repo_pattern_iff:
  "org_repo_pattern s \<longleftrightarrow>
     (\<exists>org rep. s = org @ ''/'' @ rep \<and> org \<noteq> [] \<and> rep \<noteq> [] \<and>
        (\<forall>c \<in> set org. is_word c \<or> c = CHR ''-'') \<and>
        (\<forall>c \<in> set rep. is_word c \<or> c = CHR ''.'' \<or> c = CHR ''-''))"
proof
  assume p: "org_repo_pattern s"
  let ?org = "takeWhile (\<lambda>c. c \<noteq> CHR ''/'') s"
  let ?rest = "dropWhile (\<lambda>c. c \<noteq> CHR ''/'') s"
  from p have rest: "?rest \<noteq> []" by (simp add: org_repo_pattern_def Let_def)
  then have "hd ?rest = CHR ''/''" using hd_dropWhile [of "\<lambda>c. c \<noteq> CHR ''/''" s] by simp
  then have "?rest = CHR ''/'' # tl ?rest" using rest by (cases ?rest) simp_all
  then have "s = ?org @ ''/'' @ tl ?rest"
    using takeWhile_dropWhile_id [of "\<lambda>c. c \<noteq> CHR ''/''" s] by simp
  moreover from p have "?org \<noteq> []" "tl ?rest \<noteq> []"
      "\<forall>c \<in> set ?org. is_word c \<or> c = CHR ''-''"
      "\<forall>c \<in> set (tl ?rest). is_word c \<or> c = CHR ''.'' \<or> c = CHR ''-''"
    by (simp_all add: org_repo_pattern_def Let_def list_all_iff)
  ultimately show "\<exists>org rep. s = org @ ''/'' @ rep \<and> org \<noteq> [] \<and> rep \<noteq> [] \<and>
        (\<forall>c \<in> set org. is_word c \<or> c = CHR ''-'') \<and>
        (\<forall>c \<in> set rep. is_word c \<or> c = CHR ''.'' \<or> c = CHR ''-'')"
    by blast
next
  assume "\<exists>org rep. s = org @ ''/'' @ rep \<and> org \<noteq> [] \<and> rep \<noteq> [] \<and>
        (\<forall>c \<in> set org. is_word c \<or> c = CHR ''-'') \<and>
        (\<forall>c \<in> set rep. is_word c \<or> c = CHR ''.'' \<or> c = CHR ''-'')"
  then obtain org rep where s: "s = org @ CHR ''/'' # rep" and ne: "org \<noteq> []" "rep \<noteq> []"
    and o: "\<forall>c \<in> set org. is_word c \<or> c = CHR ''-''"
    and r: "\<forall>c \<in> set rep. is_word c \<or> c = CHR ''.'' \<or> c = CHR ''-''"
    by auto
  have "\<forall>c \<in> set org. c \<noteq> CHR ''/''" using o not_word_slash by blast
  then have "takeWhile (\<lambda>c. c \<noteq> CHR ''/'') s = org" "dropWhile (\<lambda>c. c \<noteq> CHR ''/'') s = CHR ''/'' # rep"
    using s by (simp_all add: takeWhile_tail dropWhile_append3)
  then show "org_repo_pattern s"
    using ne o r by (simp add: org_repo_pattern_def Let_def list_all_iff)
qed

lemma field_rejected:
  assumes field: "(k, s) \<in> set shape" and schema: "ManifestSchema = ZObject shape"
    and issue: "\<exists>i \<in> set (fst (zrun s [k] (map_of fs k))). path i = p"
  shows "rejected_at (ManifestSchema_parse (Some (JObj fs))) p"
proof -
  from issue obtain i where i: "i \<in> set (fst (zrun s [k] (map_of fs k)))" "path i = p"
    by blast
  have "i \<in> set (fst (zrun ManifestSchema [] (Some (JObj fs))))"
    by (rule manifest_field_issue [OF field schema i(1)])
  then show ?thesis using i(2) by (rule rejected_atI)
qed

lemma hub_rejected:
  assumes "\<forall>h. map_of fs ''hub'' = Some (JStr h) \<longrightarrow> \<not> org_repo_pattern h"
  shows "rejected_at (ManifestSchema_parse (Some (JObj fs))) [''hub'']"
proof -
  let ?s = "ZString [Regex_check org_repo_pattern ''Hub must be in org/repo format'']"
  show ?thesis
  proof (rule field_rejected [where k = "''hub''" and s = ?s, OF _ ManifestSchema_def])
    show "\<exists>i \<in> set (fst (zrun ?s [''hub''] (map_of fs ''hub''))). path i = [''hub'']"
      using assms by (cases "map_of fs ''hub''"; (cases "the (map_of fs ''hub'')")?)
                      (auto simp: invalid_type_def checked_def List.map_filter_simps)
  qed simp
qed

lemma license_rejected:
  assumes "\<forall>l \<in> set ACCEPTED_LICENSES. map_of fs ''license'' \<noteq> Some (JStr l)"
  shows "rejected_at (ManifestSchema_parse (Some (JObj fs))) [''license'']"
proof -
  let ?s = "ZEnum ACCEPTED_LICENSES
              (Some (''License must be one of: '' @ join '', '' ACCEPTED_LICENSES))"
  show ?thesis
  proof (rule field_rejected [where k = "''license''" and s = ?s, OF _ ManifestSchema_def])
    show "\<exists>i \<in> set (fst (zrun ?s [''license''] (map_of fs ''license''))). path i = [''license'']"
      using assms by (cases "map_of fs ''license''"; (cases "the (map_of fs ''license'')")?)
                      (auto simp: invalid_type_def)
  qed simp
qed

lemma publicKey_rejected:
  assumes identity: "map_of fs ''identity'' = Some (JObj ifs)"
    and key: "\<forall>k. map_of ifs ''publicKey'' = Some (JStr k) \<longrightarrow> \<not> startsWith k ''ssh-ed25519 ''"
  shows "rejected_at (ManifestSchema_parse (Some (JObj fs))) [''identity'', ''publicKey'']"
proof -
  let ?s = "ZString [StartsWith_check ''ssh-ed25519 '' ''Public key must be an Ed25519 SSH key'']"
  let ?ishape = "[(''handle'', ZString [Min_check 1 (Some ''Identity handle is required'')]),
          (''publicKey'', ?s),
          (''fingerprint'',
             ZOptional
               (ZString [Regex_check fingerprint_pattern ''Fingerprint must be SHA256 format'']))]"
  have "\<exists>i \<in> set (fst (zrun ?s [''identity'', ''publicKey''] (map_of ifs ''publicKey''))).
          path i = [''identity'', ''publicKey'']"
    using key
    by (cases "map_of ifs ''publicKey''"; (cases "the (map_of ifs ''publicKey'')")?)
       (auto simp: invalid_type_def checked_def List.map_filter_simps)
  then obtain i
    where i: "i \<in> set (fst (zrun ?s [''identity'', ''publicKey''] (map_of ifs ''publicKey'')))"
      "path i = [''identity'', ''publicKey'']"
    by blast
  have mem: "(''publicKey'', ?s) \<in> set ?ishape" by simp
  have "set (fst (zrun ?s [''identity'', ''publicKey''] (map_of ifs ''publicKey'')))
          \<subseteq> set (fst (zrun (ZObject ?ishape) [''identity''] (Some (JObj ifs))))"
    using zrun_object_field_issues [OF mem, of "[''identity'']" ifs]
    by (simp del: zrun.simps)
  with i(1) have "i \<in> set (fst (zrun (ZObject ?ishape) [''identity''] (Some (JObj ifs))))"
    by blast
  then have sub: "\<exists>i \<in> set (fst (zrun (ZObject ?ishape) [''identity''] (map_of fs ''identity''))).
                    path i = [''identity'', ''publicKey'']"
    using identity i(2) by (auto simp del: zrun.simps)
  show ?thesis
    by (rule field_rejected [where k = "''identity''" and s = "ZObject ?ishape",
                             OF _ ManifestSchema_def sub]) simp
qed

lemma zrun_object_invalid:
  assumes "\<forall>fs. d \<noteq> Some (JObj fs)"
  shows "zrun (ZObject shape) p d = ([invalid_type None p ''object'' d], INVALID)"
  using assms by (cases d; (cases "the d")?) simp_all

lemma zrun_object_issue_field:
  assumes "i \<in> set (fst (zrun (ZObject shape) p (Some (JObj fs))))"
  shows "\<exists>ks \<in> set shape. i \<in> set (fst (zrun (snd ks) (p @ [fst ks]) (map_of fs (fst ks))))"
  using assms by (simp only: zrun_object_issues) auto

lemma identity_rejected:
  assumes "\<forall>ifs. map_of fs ''identity'' \<noteq> Some (JObj ifs)"
  shows "rejected_at (ManifestSchema_parse (Some (JObj fs))) [''identity'']"
    and "\<not> rejected_at (ManifestSchema_parse (Some (JObj fs))) [''identity'', ''publicKey'']"
proof -
  let ?ishape = "[(''handle'', ZString [Min_check 1 (Some ''Identity handle is required'')]),
          (''publicKey'',
             ZString [StartsWith_check ''ssh-ed25519 '' ''Public key must be an Ed25519 SSH key'']),
          (''fingerprint'',
             ZOptional
               (ZString [Regex_check fingerprint_pattern ''Fingerprint must be SHA256 format'']))]"
  let ?d = "map_of fs ''identity''"
  have run: "fst (zrun (ZObject ?ishape) [''identity''] ?d) =
               [invalid_type None [''identity''] ''object'' ?d]"
    by (simp only: zrun_object_invalid [OF assms] fst_conv)
  have sub: "\<exists>i \<in> set (fst (zrun (ZObject ?ishape) [''identity''] ?d)). path i = [''identity'']"
    by (simp only: run) (simp add: invalid_type_def)
  show "rejected_at (ManifestSchema_parse (Some (JObj fs))) [''identity'']"
    by (rule field_rejected [where k = "''identity''" and s = "ZObject ?ishape",
                             OF _ ManifestSchema_def sub]) simp
  show "\<not> rejected_at (ManifestSchema_parse (Some (JObj fs))) [''identity'', ''publicKey'']"
  proof
    assume "rejected_at (ManifestSchema_parse (Some (JObj fs))) [''identity'', ''publicKey'']"
    then obtain iss i where e: "zparse ManifestSchema (Some (JObj fs)) = Inl (ZodError iss)"
      and i: "i \<in> set iss" "path i = [''identity'', ''publicKey'']"
      by (cases "zparse ManifestSchema (Some (JObj fs))")
         (auto simp: rejected_at_def ManifestSchema_parse_def list_ex_iff split: error.splits)
    from zparse_Inl [OF e] have "iss = fst (zrun ManifestSchema [] (Some (JObj fs)))" by simp
    with i(1) have "i \<in> set (fst (zrun ManifestSchema [] (Some (JObj fs))))" by simp
    then obtain ks where ks: "ks \<in> set (case ManifestSchema of ZObject shape \<Rightarrow> shape)"
      and ik: "i \<in> set (fst (zrun (snd ks) ([] @ [fst ks]) (map_of fs (fst ks))))"
      unfolding ManifestSchema_def zschema.case by (rule zrun_object_issue_field [THEN bexE])
    from zrun_paths [OF ik] i(2) have k: "fst ks = ''identity''" by simp
    with ks have "snd ks = ZObject ?ishape" by (auto simp: ManifestSchema_def)
    with ik k have "i \<in> set (fst (zrun (ZObject ?ishape) [''identity''] ?d))" by (simp del: zrun.simps)
    then have "i = invalid_type None [''identity''] ''object'' ?d"
      by (simp only: run) simp
    with i(2) show False by (simp add: invalid_type_def)
  qed
qed

lemma root_rejected:
  assumes "\<forall>fs. raw \<noteq> Some (JObj fs)"
  shows "ManifestSchema_parse raw = Inl (ZodError [invalid_type None [] ''object'' raw])"
proof -
  obtain shape where shape: "ManifestSchema = ZObject shape" by (simp add: ManifestSchema_def)
  have "zrun ManifestSchema [] raw = ([invalid_type None [] ''object'' raw], INVALID)"
    unfolding shape by (rule zrun_object_invalid [OF assms])
  then show ?thesis by (simp add: ManifestSchema_parse_def zparse_def)
qed

text \<open>
  Claim C8, as the program has it.  A decoded manifest that is a mapping is rejected with an
  issue at \<^verbatim>\<open>hub\<close> when its \<^verbatim>\<open>hub\<close> is missing, is not a string or does not match the pattern of
  owner and repository; with an issue at \<^verbatim>\<open>license\<close> when its license is missing, is not a
  string or is outside the six accepted ones; and, when its identity is a mapping, with an issue
  at \<^verbatim>\<open>identity.publicKey\<close> when the key of the identity is missing, is not a string or does
  not start with \<^verbatim>\<open>ssh-ed25519\<close> and a space.  When the identity is missing or is not a mapping,
  the manifest is rejected with an issue at \<^verbatim>\<open>identity\<close> and has no issue at
  \<^verbatim>\<open>identity.publicKey\<close>.  A document that is not a mapping (an empty document, null, a scalar,
  a sequence) is rejected with one issue, whose path is empty: no issue has the path of a field.
\<close>

theorem manifest_rejects:
  "(raw = Some (JObj fs) \<and>
      (\<forall>h. map_of fs ''hub'' = Some (JStr h) \<longrightarrow> \<not> org_repo_pattern h) \<longrightarrow>
      rejected_at (ManifestSchema_parse raw) [''hub''])
   \<and> (raw = Some (JObj fs) \<and>
      (\<forall>l \<in> set ACCEPTED_LICENSES. map_of fs ''license'' \<noteq> Some (JStr l)) \<longrightarrow>
      rejected_at (ManifestSchema_parse raw) [''license''])
   \<and> (raw = Some (JObj fs) \<and> map_of fs ''identity'' = Some (JObj ifs) \<and>
      (\<forall>k. map_of ifs ''publicKey'' = Some (JStr k) \<longrightarrow> \<not> startsWith k ''ssh-ed25519 '') \<longrightarrow>
      rejected_at (ManifestSchema_parse raw) [''identity'', ''publicKey''])
   \<and> (raw = Some (JObj fs) \<and> (\<forall>ifs. map_of fs ''identity'' \<noteq> Some (JObj ifs)) \<longrightarrow>
      rejected_at (ManifestSchema_parse raw) [''identity''] \<and>
      \<not> rejected_at (ManifestSchema_parse raw) [''identity'', ''publicKey''])
   \<and> ((\<forall>fs. raw \<noteq> Some (JObj fs)) \<longrightarrow>
      ManifestSchema_parse raw = Inl (ZodError [invalid_type None [] ''object'' raw]) \<and>
      \<not> rejected_at (ManifestSchema_parse raw) [''hub''] \<and>
      \<not> rejected_at (ManifestSchema_parse raw) [''license''] \<and>
      \<not> rejected_at (ManifestSchema_parse raw) [''identity'', ''publicKey''])"
proof -
  have hub: "rejected_at (ManifestSchema_parse raw) [''hub'']"
    if "raw = Some (JObj fs) \<and>
        (\<forall>h. map_of fs ''hub'' = Some (JStr h) \<longrightarrow> \<not> org_repo_pattern h)"
    using that hub_rejected [of fs] by simp
  have license: "rejected_at (ManifestSchema_parse raw) [''license'']"
    if "raw = Some (JObj fs) \<and>
        (\<forall>l \<in> set ACCEPTED_LICENSES. map_of fs ''license'' \<noteq> Some (JStr l))"
    using that license_rejected [of fs] by simp
  have key: "rejected_at (ManifestSchema_parse raw) [''identity'', ''publicKey'']"
    if "raw = Some (JObj fs) \<and> map_of fs ''identity'' = Some (JObj ifs) \<and>
        (\<forall>k. map_of ifs ''publicKey'' = Some (JStr k) \<longrightarrow> \<not> startsWith k ''ssh-ed25519 '')"
    using that publicKey_rejected [of fs ifs] by simp
  have identity: "rejected_at (ManifestSchema_parse raw) [''identity''] \<and>
        \<not> rejected_at (ManifestSchema_parse raw) [''identity'', ''publicKey'']"
    if "raw = Some (JObj fs) \<and> (\<forall>ifs. map_of fs ''identity'' \<noteq> Some (JObj ifs))"
    using that identity_rejected [of fs] by simp
  have root: "ManifestSchema_parse raw = Inl (ZodError [invalid_type None [] ''object'' raw]) \<and>
        \<not> rejected_at (ManifestSchema_parse raw) [''hub''] \<and>
        \<not> rejected_at (ManifestSchema_parse raw) [''license''] \<and>
        \<not> rejected_at (ManifestSchema_parse raw) [''identity'', ''publicKey'']"
    if "\<forall>fs. raw \<noteq> Some (JObj fs)"
    using root_rejected [OF that] by (simp add: rejected_at_def invalid_type_def)
  from hub license key identity root show ?thesis by blast
qed

text \<open>
  The theorem on the minimal manifest of the tests without its \<^verbatim>\<open>hub\<close> and without its
  identity, on a manifest with the hub \<^verbatim>\<open>not-a-valid-hub\<close>, the license \<^verbatim>\<open>GPL-3.0\<close> and an RSA
  key, and on a document that is an empty sequence.
\<close>

theorem manifest_rejects_witness:
  "rejected_at (ManifestSchema_parse (Some (JObj (AList.delete ''hub'' minimal_manifest)))) [''hub'']
   \<and> rejected_at (ManifestSchema_parse (Some (JObj bad_manifest))) [''hub'']
   \<and> rejected_at (ManifestSchema_parse (Some (JObj bad_manifest))) [''license'']
   \<and> rejected_at (ManifestSchema_parse (Some (JObj bad_manifest))) [''identity'', ''publicKey'']
   \<and> rejected_at (ManifestSchema_parse (Some (JObj (AList.delete ''identity'' minimal_manifest))))
         [''identity'']
   \<and> ManifestSchema_parse (Some (JArr [])) =
         Inl (ZodError [\<lparr>path = [], message = ''Expected object, received array''\<rparr>])
   \<and> \<not> org_repo_pattern ''not-a-valid-hub''
   \<and> ''GPL-3.0'' \<notin> set ACCEPTED_LICENSES
   \<and> \<not> startsWith ''ssh-rsa AAAA...'' ''ssh-ed25519 ''"
proof -
  have a: "map_of (AList.delete ''hub'' minimal_manifest) ''hub'' = None"
      "map_of (AList.delete ''identity'' minimal_manifest) ''identity'' = None"
    by (simp_all add: delete_conv')
  have b: "map_of bad_manifest ''hub'' = Some (JStr ''not-a-valid-hub'')"
      "map_of bad_manifest ''license'' = Some (JStr ''GPL-3.0'')"
      "map_of bad_manifest ''identity'' =
         Some (JObj [(''handle'', JStr ''testuser''), (''publicKey'', JStr ''ssh-rsa AAAA...'')])"
    by (simp_all add: bad_manifest_def)
  have c: "\<not> org_repo_pattern ''not-a-valid-hub''" "''GPL-3.0'' \<notin> set ACCEPTED_LICENSES"
      "\<not> startsWith ''ssh-rsa AAAA...'' ''ssh-ed25519 ''"
    by code_simp+
  have l: "\<forall>l \<in> set ACCEPTED_LICENSES. ''GPL-3.0'' \<noteq> l"
    using c(2) by blast
  note t1 = manifest_rejects [where raw = "Some (JObj (AList.delete ''hub'' minimal_manifest))"
         and fs = "AList.delete ''hub'' minimal_manifest"]
  note t2 = manifest_rejects [where raw = "Some (JObj bad_manifest)" and fs = bad_manifest
         and ifs = "[(''handle'', JStr ''testuser''), (''publicKey'', JStr ''ssh-rsa AAAA...'')]"]
  note t3 = manifest_rejects [where raw = "Some (JObj (AList.delete ''identity'' minimal_manifest))"
         and fs = "AList.delete ''identity'' minimal_manifest"]
  note t4 = manifest_rejects [where raw = "Some (JArr [])"]
  have r1: "rejected_at (ManifestSchema_parse (Some (JObj (AList.delete ''hub'' minimal_manifest))))
              [''hub'']"
    using t1 a(1) by simp
  have r2: "rejected_at (ManifestSchema_parse (Some (JObj bad_manifest))) [''hub'']"
    using t2 b(1) c(1) by simp
  have r3: "rejected_at (ManifestSchema_parse (Some (JObj bad_manifest))) [''license'']"
    using t2 b(2) l by simp
  have r4: "rejected_at (ManifestSchema_parse (Some (JObj bad_manifest))) [''identity'', ''publicKey'']"
    using t2 b(3) c(3) by simp
  have r5: "rejected_at (ManifestSchema_parse (Some (JObj (AList.delete ''identity'' minimal_manifest))))
              [''identity'']"
    using t3 a(2) by simp
  have r6: "ManifestSchema_parse (Some (JArr [])) =
         Inl (ZodError [\<lparr>path = [], message = ''Expected object, received array''\<rparr>])"
    using t4 by (simp add: invalid_type_def)
  show ?thesis using r1 r2 r3 r4 r5 r6 c by (intro conjI)
qed

text \<open>
  Claim C8 as the specification states it fails on the empty document: it has no \<^verbatim>\<open>hub\<close>, and
  its only issue has the empty path.  It fails also on the minimal manifest without its
  identity, which has no issue at \<^verbatim>\<open>identity.publicKey\<close>.
\<close>

theorem manifest_rejects_counterexample:
  "member None ''hub'' = None
   \<and> ManifestSchema_parse None = Inl (ZodError [\<lparr>path = [], message = ''Required''\<rparr>])
   \<and> \<not> rejected_at (ManifestSchema_parse None) [''hub'']
   \<and> member (Some (JObj (AList.delete ''identity'' minimal_manifest))) ''identity'' = None
   \<and> \<not> rejected_at (ManifestSchema_parse (Some (JObj (AList.delete ''identity'' minimal_manifest))))
         [''identity'', ''publicKey'']"
  by code_simp

lemma manifest_invariant:
  assumes "ManifestSchema_parse raw = Inr m"
  shows "name m \<noteq> []" "org_repo_pattern (hub m)" "Manifest.project m \<noteq> []"
    "handle_pattern (Manifest.maintainer m)" "Manifest.license m \<in> set ACCEPTED_LICENSES"
    "Identity.handle (identity m) \<noteq> []"
    "startsWith (Identity.publicKey (identity m)) ''ssh-ed25519 ''"
    "\<forall>f. Identity.fingerprint (identity m) = Some f \<longrightarrow> fingerprint_pattern f"
proof -
  from assms obtain v where v: "zparse ManifestSchema raw = Inr v" and m: "m = as_Manifest v"
    by (cases "zparse ManifestSchema raw") (auto simp: ManifestSchema_parse_def)
  note f = manifest_fields [OF v]
  show "name m \<noteq> []" using f(1,9) m by (auto simp: as_Manifest_def as_string_def)
  show "org_repo_pattern (hub m)" using f(2,10) m by (auto simp: as_Manifest_def as_string_def)
  show "Manifest.project m \<noteq> []" using f(3,11) m by (auto simp: as_Manifest_def as_string_def)
  show "handle_pattern (Manifest.maintainer m)"
    using f(4,12) m by (auto simp: as_Manifest_def as_string_def)
  show "Manifest.license m \<in> set ACCEPTED_LICENSES"
    using f(5,13) m by (auto simp: as_Manifest_def as_string_def)
  show "Identity.handle (identity m) \<noteq> []"
    using f(6,14) m by (auto simp: as_Manifest_def as_string_def)
  show "startsWith (Identity.publicKey (identity m)) ''ssh-ed25519 ''"
    using f(7,15) m by (auto simp: as_Manifest_def as_string_def)
  show "\<forall>f. Identity.fingerprint (identity m) = Some f \<longrightarrow> fingerprint_pattern f"
    using f(8,16) m by (auto simp: as_Manifest_def as_string_option_def)
qed

subsection \<open>The pull command\<close>

lemma status_generatedAt:
  assumes "StatusSchema_parse dp raw = Inr s"
  shows "SpokeStatus.generatedAt s = as_string (member raw ''generatedAt'')"
    and "\<exists>g. dp (SpokeStatus.generatedAt s) = Some g"
proof -
  from assms obtain v where v: "zparse (StatusSchema dp) raw = Inr v" and s: "s = as_SpokeStatus v"
    by (cases "zparse (StatusSchema dp) raw") (auto simp: StatusSchema_parse_def)
  have run: "zrun (StatusSchema dp) [] raw = ([], OK v)"
    using v by (simp add: zparse_Inr_iff)
  let ?f = "ZRefine (ZString []) (valid_date dp) ''generatedAt must be a valid ISO 8601 timestamp''"
  have "zrun ?f ([] @ [''generatedAt'']) (member raw ''generatedAt'') = ([], OK (member v ''generatedAt''))"
    by (rule zrun_object_field [OF run [unfolded StatusSchema_def]]) simp_all
  then have f: "zrun ?f [''generatedAt''] (member raw ''generatedAt'') = ([], OK (member v ''generatedAt''))"
    by (simp del: zrun.simps)
  from zrun_refine_OK [OF f]
  have inner: "zrun (ZString []) [''generatedAt''] (member raw ''generatedAt'') = ([], OK (member v ''generatedAt''))"
    and valid: "valid_date dp (member v ''generatedAt'')" by simp_all
  from zrun_string_OK [OF inner] obtain t where t: "member raw ''generatedAt'' = Some (JStr t)"
    "member v ''generatedAt'' = member raw ''generatedAt''" by auto
  show "SpokeStatus.generatedAt s = as_string (member raw ''generatedAt'')"
    using s t by (simp add: as_SpokeStatus_def)
  show "\<exists>g. dp (SpokeStatus.generatedAt s) = Some g"
    using s t valid by (simp add: as_SpokeStatus_def valid_date_def as_string_def)
qed

lemma bind_error_Inr:
  "bind_error r f = Inr y \<longleftrightarrow> (\<exists>x. r = Inr x \<and> f x = Inr y)"
  by (cases r) (simp_all add: bind_error_def)

lemma bind_error_Inl:
  "bind_error r f = Inl e \<longleftrightarrow> r = Inl e \<or> (\<exists>x. r = Inr x \<and> f x = Inl e)"
  by (cases r) (simp_all add: bind_error_def)

lemma read_spoke_Inr:
  "read_spoke h proj manifestContent statusContent = Inr (entry, has_status) \<longleftrightarrow>
     (\<exists>rawManifest manifest st.
        load h manifestContent = Inr rawManifest \<and>
        ManifestSchema_parse rawManifest = Inr manifest \<and>
        (case statusContent of
           None \<Rightarrow> st = None
         | Some content \<Rightarrow>
             (\<exists>rawStatus s. load h content = Inr rawStatus \<and>
                StatusSchema_parse (Date_parse h) rawStatus = Inr s \<and> st = Some s)) \<and>
        entry = spoke_entry manifest st (stale_flag h proj st) \<and>
        has_status = (st \<noteq> None))"
  by (cases statusContent) (auto simp: read_spoke_def bind_error_Inr)

text \<open>
  Claim C3.  The stale flag of a spoke without a status is true; with a status whose
  \<^verbatim>\<open>generatedAt\<close> parses to the time \<open>g\<close>, it is true exactly when the clock minus \<open>g\<close> is
  greater than 604800000 ms: a status of exactly 7 days is not stale, one of 7 days and a
  second is stale, one of 6 days is not.  In a round of the pull command that makes an entry,
  the flag of the entry is true without a status file, and is this comparison with a status
  file, whose \<^verbatim>\<open>generatedAt\<close> always parses since the schema has accepted it.
\<close>

theorem stale_threshold:
  "stale_flag h proj None
   \<and> (Date_parse h (SpokeStatus.generatedAt s) = Some g \<longrightarrow>
        stale_flag h proj (Some s) = (now h proj - g > 604800000)
        \<and> (now h proj = g + 604800000 \<longrightarrow> \<not> stale_flag h proj (Some s))
        \<and> (now h proj = g + 604800000 + 1000 \<longrightarrow> stale_flag h proj (Some s))
        \<and> (now h proj = g + 6 * 86400000 \<longrightarrow> \<not> stale_flag h proj (Some s)))
   \<and> (read_spoke h proj manifestContent None = Inr (entry, has_status) \<longrightarrow>
        stale entry \<and> \<not> has_status)
   \<and> (read_spoke h proj manifestContent (Some content) = Inr (entry, has_status) \<longrightarrow>
        (\<exists>raw st t. load h content = Inr raw \<and>
           StatusSchema_parse (Date_parse h) raw = Inr st \<and>
           Date_parse h (SpokeStatus.generatedAt st) = Some t \<and>
           stale entry = (now h proj - t > 604800000)))"
proof (intro conjI impI)
  show "stale_flag h proj None" by (simp add: stale_flag_def)
  assume g: "Date_parse h (SpokeStatus.generatedAt s) = Some g"
  then show eq: "stale_flag h proj (Some s) = (now h proj - g > 604800000)"
    by (simp add: stale_flag_def isStale_def)
  show "\<not> stale_flag h proj (Some s)" if "now h proj = g + 604800000"
    using that eq by simp
  show "stale_flag h proj (Some s)" if "now h proj = g + 604800000 + 1000"
    using that eq by simp
  show "\<not> stale_flag h proj (Some s)" if "now h proj = g + 6 * 86400000"
    using that eq by simp
next
  assume "read_spoke h proj manifestContent None = Inr (entry, has_status)"
  then show "stale entry" and "\<not> has_status"
    by (auto simp: read_spoke_Inr spoke_entry_def stale_flag_def)
next
  assume "read_spoke h proj manifestContent (Some content) = Inr (entry, has_status)"
  then obtain manifest raw st where raw: "load h content = Inr raw"
    and st: "StatusSchema_parse (Date_parse h) raw = Inr st"
    and e: "entry = spoke_entry manifest (Some st) (stale_flag h proj (Some st))"
    by (auto simp: read_spoke_Inr)
  from status_generatedAt(2) [OF st] obtain t where t: "Date_parse h (SpokeStatus.generatedAt st) = Some t"
    by blast
  then have "stale entry = (now h proj - t > 604800000)"
    using e by (simp add: spoke_entry_def stale_flag_def isStale_def)
  with raw st t show "\<exists>raw st t. load h content = Inr raw \<and>
           StatusSchema_parse (Date_parse h) raw = Inr st \<and>
           Date_parse h (SpokeStatus.generatedAt st) = Some t \<and>
           stale entry = (now h proj - t > 604800000)"
    by blast
qed

lemma example_host_simps [simp]:
  "now (example_host clock) proj = clock"
  "Date_parse (example_host clock) ''2026-02-07T00:00:00Z'' = Some 1770422400000"
  by (simp_all add: example_host_def)

text \<open>
  The theorem on the minimal manifest and the status of the tests, generated at
  2026-02-07T00:00:00Z, with the clock 7 days, 7 days and a second, and 6 days later.
\<close>

theorem stale_threshold_witness:
  "stale_flag (example_host 0) ''spoke'' None
   \<and> \<not> stale_flag (example_host (1770422400000 + 604800000)) ''spoke'' (Some build_status)
   \<and> stale_flag (example_host (1770422400000 + 604800000 + 1000)) ''spoke'' (Some build_status)
   \<and> \<not> stale_flag (example_host (1770422400000 + 6 * 86400000)) ''spoke'' (Some build_status)
   \<and> read_spoke (example_host 0) ''spoke'' ''minimal manifest'' None = Inr (unknown_entry, False)
   \<and> stale unknown_entry
   \<and> read_spoke (example_host (1770422400000 + 604800000)) ''spoke'' ''minimal manifest''
        (Some ''valid status'') = Inr (build_entry False, True)"
proof -
  have g: "SpokeStatus.generatedAt build_status = ''2026-02-07T00:00:00Z''"
    by (simp add: build_status_def)
  have r1: "read_spoke (example_host 0) ''spoke'' ''minimal manifest'' None
              = Inr (unknown_entry, False)"
    by code_simp
  have r2: "read_spoke (example_host (1770422400000 + 604800000)) ''spoke'' ''minimal manifest''
              (Some ''valid status'') = Inr (build_entry False, True)"
    by code_simp
  from stale_threshold [where h = "example_host 0" and s = build_status
         and g = 1770422400000 and proj = "''spoke''" and manifestContent = "''minimal manifest''"
         and entry = unknown_entry and has_status = False]
       stale_threshold [where h = "example_host (1770422400000 + 604800000)"
         and s = build_status and g = 1770422400000 and proj = "''spoke''"
         and manifestContent = "''minimal manifest''" and entry = "build_entry False"
         and has_status = True and content = "''valid status''"]
       stale_threshold [where h = "example_host (1770422400000 + 604800000 + 1000)"
         and s = build_status and g = 1770422400000 and proj = "''spoke''"]
       stale_threshold [where h = "example_host (1770422400000 + 6 * 86400000)"
         and s = build_status and g = 1770422400000 and proj = "''spoke''"]
       g r1 r2
  show ?thesis by simp
qed





















subsection \<open>The validate command\<close>

text \<open>
  Claim C6.  The check of the two files adds nothing when the manifest or the operator is
  missing, and never a warning.  With both, it adds to the errors the message of the handles
  exactly when \<^verbatim>\<open>manifest.identity.handle\<close> and \<^verbatim>\<open>operator.handle\<close> are not the same string, and
  then the message of the keys exactly when \<^verbatim>\<open>manifest.identity.publicKey\<close> and
  \<^verbatim>\<open>operator.signing.publicKey\<close> are not the same string: the two tests are independent.
\<close>

theorem cross_file_consistency:
  "validateCrossFile None operator results = results
   \<and> validateCrossFile manifest None results = results
   \<and> warnings (validateCrossFile manifest operator results) = warnings results
   \<and> errors (validateCrossFile (Some m) (Some oper) results) =
       errors results
       @ (if Identity.handle (identity m) = Operator.handle oper then []
          else [''Handle mismatch: manifest '' @ [CHR 0x22] @ Identity.handle (identity m) @
                [CHR 0x22] @ '' vs operator '' @ [CHR 0x22] @ Operator.handle oper @ [CHR 0x22]])
       @ (if Identity.publicKey (identity m) = Signing.publicKey (signing oper) then []
          else [''Public key mismatch between manifest.yaml and operator.yaml''])"
  by (simp add: validateCrossFile_def Let_def split: option.split)

text \<open>
  The theorem on the manifest of alice and the operator bob with the same key: one error, of
  the handles, and none of the keys.
\<close>

theorem cross_file_consistency_witness:
  "Identity.handle (identity alice_manifest) \<noteq> Operator.handle bob_operator
   \<and> Identity.publicKey (identity alice_manifest) = Signing.publicKey (signing bob_operator)
   \<and> validateCrossFile (Some alice_manifest) (Some bob_operator) \<lparr>errors = [], warnings = []\<rparr>
       = \<lparr>errors = [''Handle mismatch: manifest '' @ [CHR 0x22] @ ''alice'' @ [CHR 0x22] @
                     '' vs operator '' @ [CHR 0x22] @ ''bob'' @ [CHR 0x22]],
          warnings = []\<rparr>
   \<and> validateCrossFile (Some alice_manifest) None \<lparr>errors = [], warnings = []\<rparr>
       = \<lparr>errors = [], warnings = []\<rparr>"
  using cross_file_consistency [where operator = "Some bob_operator"
          and results = "\<lparr>errors = [], warnings = []\<rparr>"
          and manifest = "Some alice_manifest" and m = alice_manifest and oper = bob_operator]
  by (simp add: alice_manifest_def bob_operator_def)

lemma zrun_array_issues:
  "fst (zrun (ZArray element) p (Some (JArr xs))) =
     concat (map (\<lambda>ix. fst (zrun element (p @ [show_nat (fst ix)]) (Some (snd ix))))
                 (List.enumerate 0 xs))"
  by (simp add: Let_def comp_def)

lemma validateManifest_errors:
  assumes "bind_error (load h content) ManifestSchema_parse = Inl (ZodError iss)"
  shows "validateManifest h (Some content) results =
     (None, results\<lparr>errors := errors results @
        map (\<lambda>issue. ''manifest.yaml: '' @ join ''.'' (path issue) @ '' '' @ emdash @ '' '' @
                       message issue) iss\<rparr>)"
  using assms by (simp add: validateManifest_def manifest_errors_def)

lemma validateManifest_valid:
  assumes "bind_error (load h content) ManifestSchema_parse = Inr m"
  shows "fst (validateManifest h (Some content) results) = Some m"
    and "errors (snd (validateManifest h (Some content) results)) = errors results"
  using assms by (simp_all add: validateManifest_def)

text \<open>
  Claim C7, as the program has it.  For every schema and every decoded document, the parse
  gives the value exactly when the run has no issue, and otherwise throws a \<^verbatim>\<open>ZodError\<close> with
  the issues of the run, which are not empty.  On a mapping, the issues of an object schema are
  the issues of all the keys of the schema, in the order of the schema, each key checked at
  its own path whatever the others give; the same holds for the elements of a sequence; and
  the path of every issue of a value starts with the path of the value.  Where an object
  schema meets a value that is not a mapping (the document itself, or a field), it has one
  issue, at the path of that value, and does not look for the keys below.  \<^verbatim>\<open>validateManifest\<close>
  reports every issue as the dotted path and the message, and returns the manifest when the
  parse gives one; the manifest then satisfies the constraints of the schema.
\<close>

theorem validation_reports:
  "((\<exists>v. zparse schema raw = Inr v \<and> fst (zrun schema [] raw) = []) \<or>
    (zparse schema raw = Inl (ZodError (fst (zrun schema [] raw))) \<and>
     fst (zrun schema [] raw) \<noteq> []))
   \<and> fst (zrun (ZObject shape) p (Some (JObj fs))) =
       concat (map (\<lambda>ks. fst (zrun (snd ks) (p @ [fst ks]) (map_of fs (fst ks)))) shape)
   \<and> fst (zrun (ZArray element) p (Some (JArr xs))) =
       concat (map (\<lambda>ix. fst (zrun element (p @ [show_nat (fst ix)]) (Some (snd ix))))
                   (List.enumerate 0 xs))
   \<and> ((\<forall>fs. d \<noteq> Some (JObj fs)) \<longrightarrow>
        zrun (ZObject shape) p d = ([invalid_type None p ''object'' d], INVALID))
   \<and> (i \<in> set (fst (zrun schema p raw)) \<longrightarrow> take (length p) (path i) = p)
   \<and> (bind_error (load h content) ManifestSchema_parse = Inl (ZodError iss) \<longrightarrow>
        validateManifest h (Some content) results =
          (None, results\<lparr>errors := errors results @
             map (\<lambda>issue. ''manifest.yaml: '' @ join ''.'' (path issue) @ '' '' @ emdash @ '' '' @
                            message issue) iss\<rparr>))
   \<and> (bind_error (load h content) ManifestSchema_parse = Inr m \<longrightarrow>
        fst (validateManifest h (Some content) results) = Some m \<and>
        errors (snd (validateManifest h (Some content) results)) = errors results \<and>
        name m \<noteq> [] \<and> org_repo_pattern (hub m) \<and> Manifest.project m \<noteq> [] \<and>
        handle_pattern (Manifest.maintainer m) \<and> Manifest.license m \<in> set ACCEPTED_LICENSES \<and>
        Identity.handle (identity m) \<noteq> [] \<and>
        startsWith (Identity.publicKey (identity m)) ''ssh-ed25519 '')"
proof -
  have a: "(\<exists>v. zparse schema raw = Inr v \<and> fst (zrun schema [] raw) = []) \<or>
    (zparse schema raw = Inl (ZodError (fst (zrun schema [] raw))) \<and>
     fst (zrun schema [] raw) \<noteq> [])"
    by (rule zparse_cases)
  have b: "fst (zrun (ZObject shape) p (Some (JObj fs))) =
       concat (map (\<lambda>ks. fst (zrun (snd ks) (p @ [fst ks]) (map_of fs (fst ks)))) shape)"
    by (rule zrun_object_issues)
  have c: "fst (zrun (ZArray element) p (Some (JArr xs))) =
       concat (map (\<lambda>ix. fst (zrun element (p @ [show_nat (fst ix)]) (Some (snd ix))))
                   (List.enumerate 0 xs))"
    by (rule zrun_array_issues)
  have d: "zrun (ZObject shape) p d = ([invalid_type None p ''object'' d], INVALID)"
    if "\<forall>fs. d \<noteq> Some (JObj fs)"
    using that by (rule zrun_object_invalid)
  have e: "take (length p) (path i) = p" if "i \<in> set (fst (zrun schema p raw))"
    using that by (rule zrun_paths)
  have f: "validateManifest h (Some content) results =
          (None, results\<lparr>errors := errors results @
             map (\<lambda>issue. ''manifest.yaml: '' @ join ''.'' (path issue) @ '' '' @ emdash @ '' '' @
                            message issue) iss\<rparr>)"
    if "bind_error (load h content) ManifestSchema_parse = Inl (ZodError iss)"
    using that by (rule validateManifest_errors)
  have g: "fst (validateManifest h (Some content) results) = Some m \<and>
        errors (snd (validateManifest h (Some content) results)) = errors results \<and>
        name m \<noteq> [] \<and> org_repo_pattern (hub m) \<and> Manifest.project m \<noteq> [] \<and>
        handle_pattern (Manifest.maintainer m) \<and> Manifest.license m \<in> set ACCEPTED_LICENSES \<and>
        Identity.handle (identity m) \<noteq> [] \<and>
        startsWith (Identity.publicKey (identity m)) ''ssh-ed25519 ''"
    if ok: "bind_error (load h content) ManifestSchema_parse = Inr m"
  proof -
    from ok obtain document where "ManifestSchema_parse document = Inr m"
      by (cases "load h content") (auto simp: bind_error_def)
    note inv = manifest_invariant [OF this]
    show ?thesis
      using validateManifest_valid [OF ok, of results] inv(1-7) by blast
  qed
  from a b c d e f g show ?thesis by blast
qed

text \<open>
  The theorem on the manifest with three violations, which are all reported, on a status with
  three violations, one of them in its tests, on an operator document without handle and
  signing, on the minimal manifest, which is valid, and on a status without tests.
\<close>

theorem validation_reports_witness:
  "zparse ManifestSchema (Some (JObj bad_manifest)) =
     Inl (ZodError
       [\<lparr>path = [''hub''], message = ''Hub must be in org/repo format''\<rparr>,
        \<lparr>path = [''license''],
         message = ''License must be one of: MIT, Apache-2.0, BSD-2-Clause, BSD-3-Clause, CC-BY-4.0, AGPL-3.0''\<rparr>,
        \<lparr>path = [''identity'', ''publicKey''],
         message = ''Public key must be an Ed25519 SSH key''\<rparr>])
   \<and> zparse (StatusSchema (Date_parse (example_host 0))) (Some (JObj bad_status)) =
     Inl (ZodError
       [\<lparr>path = [''generatedAt''],
         message = ''generatedAt must be a valid ISO 8601 timestamp''\<rparr>,
        \<lparr>path = [''phase''],
         message = ''Phase must be one of: specify, build, harden, contrib-prep, review, shipped, evolving''\<rparr>,
        \<lparr>path = [''tests'', ''passing''],
         message = ''Number must be greater than or equal to 0''\<rparr>])
   \<and> zparse (OperatorSchema (Date_parse (example_host 0))) (Some (JObj bare_operator)) =
     Inl (ZodError
       [\<lparr>path = [''handle''], message = ''Required''\<rparr>,
        \<lparr>path = [''signing''], message = ''Required''\<rparr>])
   \<and> (\<exists>v. zparse ManifestSchema (Some (JObj minimal_manifest)) = Inr v)
   \<and> zrun (ZObject [(''passing'', ZNumber [Int_check, Nonnegative_check]),
                     (''failing'', ZNumber [Int_check, Nonnegative_check])])
           [''tests''] None =
       ([\<lparr>path = [''tests''], message = ''Required''\<rparr>], INVALID)
   \<and> validateManifest (example_host 0) (Some ''bad manifest'') \<lparr>errors = [], warnings = []\<rparr> =
       (None,
        \<lparr>errors =
           [''manifest.yaml: hub '' @ emdash @ '' Hub must be in org/repo format'',
            ''manifest.yaml: license '' @ emdash @
              '' License must be one of: MIT, Apache-2.0, BSD-2-Clause, BSD-3-Clause, CC-BY-4.0, AGPL-3.0'',
            ''manifest.yaml: identity.publicKey '' @ emdash @
              '' Public key must be an Ed25519 SSH key''],
         warnings = []\<rparr>)
   \<and> fst (validateManifest (example_host 0) (Some ''minimal manifest'')
             \<lparr>errors = [], warnings = []\<rparr>) = Some testuser_manifest"
proof -
  have i1: "fst (zrun ManifestSchema [] (Some (JObj bad_manifest))) =
       [\<lparr>path = [''hub''], message = ''Hub must be in org/repo format''\<rparr>,
        \<lparr>path = [''license''],
         message = ''License must be one of: MIT, Apache-2.0, BSD-2-Clause, BSD-3-Clause, CC-BY-4.0, AGPL-3.0''\<rparr>,
        \<lparr>path = [''identity'', ''publicKey''],
         message = ''Public key must be an Ed25519 SSH key''\<rparr>]"
    by code_simp
  have i2: "fst (zrun (StatusSchema (Date_parse (example_host 0))) [] (Some (JObj bad_status))) =
       [\<lparr>path = [''generatedAt''],
         message = ''generatedAt must be a valid ISO 8601 timestamp''\<rparr>,
        \<lparr>path = [''phase''],
         message = ''Phase must be one of: specify, build, harden, contrib-prep, review, shipped, evolving''\<rparr>,
        \<lparr>path = [''tests'', ''passing''],
         message = ''Number must be greater than or equal to 0''\<rparr>]"
    by code_simp
  have i3: "fst (zrun (OperatorSchema (Date_parse (example_host 0))) [] (Some (JObj bare_operator))) =
       [\<lparr>path = [''handle''], message = ''Required''\<rparr>,
        \<lparr>path = [''signing''], message = ''Required''\<rparr>]"
    by code_simp
  have i4: "fst (zrun ManifestSchema [] (Some (JObj minimal_manifest))) = []"
    by code_simp
  have b1: "bind_error (load (example_host 0) ''bad manifest'') ManifestSchema_parse =
     Inl (ZodError
       [\<lparr>path = [''hub''], message = ''Hub must be in org/repo format''\<rparr>,
        \<lparr>path = [''license''],
         message = ''License must be one of: MIT, Apache-2.0, BSD-2-Clause, BSD-3-Clause, CC-BY-4.0, AGPL-3.0''\<rparr>,
        \<lparr>path = [''identity'', ''publicKey''],
         message = ''Public key must be an Ed25519 SSH key''\<rparr>])"
    by code_simp
  have b2: "bind_error (load (example_host 0) ''minimal manifest'') ManifestSchema_parse =
     Inr testuser_manifest"
    by code_simp
  note t1 = validation_reports [where schema = ManifestSchema and raw = "Some (JObj bad_manifest)"
      and h = "example_host 0" and content = "''bad manifest''"
      and results = "\<lparr>errors = [], warnings = []\<rparr>"
      and iss = "[\<lparr>path = [''hub''], message = ''Hub must be in org/repo format''\<rparr>,
        \<lparr>path = [''license''],
         message = ''License must be one of: MIT, Apache-2.0, BSD-2-Clause, BSD-3-Clause, CC-BY-4.0, AGPL-3.0''\<rparr>,
        \<lparr>path = [''identity'', ''publicKey''],
         message = ''Public key must be an Ed25519 SSH key''\<rparr>]"]
  note t2 = validation_reports [where schema = "StatusSchema (Date_parse (example_host 0))"
      and raw = "Some (JObj bad_status)"]
  note t3 = validation_reports [where schema = "OperatorSchema (Date_parse (example_host 0))"
      and raw = "Some (JObj bare_operator)"]
  note t4 = validation_reports [where schema = ManifestSchema
      and raw = "Some (JObj minimal_manifest)"
      and h = "example_host 0" and content = "''minimal manifest''"
      and results = "\<lparr>errors = [], warnings = []\<rparr>" and m = testuser_manifest
      and d = None and p = "[''tests'']"
      and shape = "[(''passing'', ZNumber [Int_check, Nonnegative_check]),
                    (''failing'', ZNumber [Int_check, Nonnegative_check])]"]
  have c1: "zparse ManifestSchema (Some (JObj bad_manifest)) =
     Inl (ZodError
       [\<lparr>path = [''hub''], message = ''Hub must be in org/repo format''\<rparr>,
        \<lparr>path = [''license''],
         message = ''License must be one of: MIT, Apache-2.0, BSD-2-Clause, BSD-3-Clause, CC-BY-4.0, AGPL-3.0''\<rparr>,
        \<lparr>path = [''identity'', ''publicKey''],
         message = ''Public key must be an Ed25519 SSH key''\<rparr>])"
    using t1 i1 by simp
  have c2: "zparse (StatusSchema (Date_parse (example_host 0))) (Some (JObj bad_status)) =
     Inl (ZodError
       [\<lparr>path = [''generatedAt''],
         message = ''generatedAt must be a valid ISO 8601 timestamp''\<rparr>,
        \<lparr>path = [''phase''],
         message = ''Phase must be one of: specify, build, harden, contrib-prep, review, shipped, evolving''\<rparr>,
        \<lparr>path = [''tests'', ''passing''],
         message = ''Number must be greater than or equal to 0''\<rparr>])"
    using t2 i2 by simp
  have c3: "zparse (OperatorSchema (Date_parse (example_host 0))) (Some (JObj bare_operator)) =
     Inl (ZodError
       [\<lparr>path = [''handle''], message = ''Required''\<rparr>,
        \<lparr>path = [''signing''], message = ''Required''\<rparr>])"
    using t3 i3 by simp
  have c4: "\<exists>v. zparse ManifestSchema (Some (JObj minimal_manifest)) = Inr v"
    using t4 i4 by simp
  have c5: "zrun (ZObject [(''passing'', ZNumber [Int_check, Nonnegative_check]),
                     (''failing'', ZNumber [Int_check, Nonnegative_check])])
           [''tests''] None =
       ([\<lparr>path = [''tests''], message = ''Required''\<rparr>], INVALID)"
    using t4 by (simp add: invalid_type_def del: zrun.simps)
  have c6: "validateManifest (example_host 0) (Some ''bad manifest'') \<lparr>errors = [], warnings = []\<rparr> =
       (None,
        \<lparr>errors =
           [''manifest.yaml: hub '' @ emdash @ '' Hub must be in org/repo format'',
            ''manifest.yaml: license '' @ emdash @
              '' License must be one of: MIT, Apache-2.0, BSD-2-Clause, BSD-3-Clause, CC-BY-4.0, AGPL-3.0'',
            ''manifest.yaml: identity.publicKey '' @ emdash @
              '' Public key must be an Ed25519 SSH key''],
         warnings = []\<rparr>)"
    using t1 b1 by simp
  have c7: "fst (validateManifest (example_host 0) (Some ''minimal manifest'')
             \<lparr>errors = [], warnings = []\<rparr>) = Some testuser_manifest"
    using t4 b2 by simp
  show ?thesis using c1 c2 c3 c4 c5 c6 c7 by (intro conjI)
qed

text \<open>
  Claim C7 as the specification states it fails where a mapping is expected and something
  else is found.  The empty mapping has an issue for each of the seven keys that a manifest
  must have; the document \<^verbatim>\<open>null\<close> has none of these keys either, and has one issue, whose path
  is empty.  A status with an empty mapping for its tests has an issue for each of the two
  counts, and a status without tests has one issue, at \<^verbatim>\<open>tests\<close>.
\<close>

theorem validation_reports_counterexample:
  "map path (fst (zrun ManifestSchema [] (Some (JObj [])))) =
     [[''schemaVersion''], [''name''], [''hub''], [''project''], [''maintainer''], [''license''],
      [''identity'']]
   \<and> zparse ManifestSchema (Some JNull) =
       Inl (ZodError [\<lparr>path = [], message = ''Expected object, received null''\<rparr>])
   \<and> manifest_errors (ZodError [\<lparr>path = [], message = ''Expected object, received null''\<rparr>]) =
       [''manifest.yaml:  '' @ emdash @ '' Expected object, received null'']
   \<and> zparse (StatusSchema (Date_parse (example_host 0)))
         (Some (JObj (AList.update ''tests'' (JObj []) valid_status))) =
       Inl (ZodError [\<lparr>path = [''tests'', ''passing''], message = ''Required''\<rparr>,
                      \<lparr>path = [''tests'', ''failing''], message = ''Required''\<rparr>])
   \<and> zparse (StatusSchema (Date_parse (example_host 0)))
         (Some (JObj (AList.delete ''tests'' valid_status))) =
       Inl (ZodError [\<lparr>path = [''tests''], message = ''Required''\<rparr>])"
  by code_simp

subsection \<open>The verify command\<close>







end
